theory Spec2Isabelle
  imports Main
begin

section \<open>Results, errors and the JavaScript idioms the contexts use\<close>

text \<open>
  The operations of \<^verbatim>\<open>ContractContext.tsx\<close> are \<^verbatim>\<open>async\<close> functions. A promise that
  rejects is the left injection of a sum, a promise that resolves the right one.
  \<open>Thrown msg\<close> is a \<^verbatim>\<open>throw new Error(msg)\<close> of the application itself (or a
  runtime \<^verbatim>\<open>TypeError\<close>/\<^verbatim>\<open>RangeError\<close>); \<open>Rejected reason\<close> is a rejection that comes
  from outside: the wallet, the RPC endpoint, the ledger, a gateway or the upload helper.
\<close>

datatype error = Thrown string | Rejected string

text \<open>\<^verbatim>\<open>const v = await m; ...\<close>: a rejection of \<open>m\<close> leaves the function at once.\<close>

definition await :: "error + 'a \<Rightarrow> ('a \<Rightarrow> error + 'b) \<Rightarrow> error + 'b" where
  "await m f = (case m of Inl e \<Rightarrow> Inl e | Inr v \<Rightarrow> f v)"

text \<open>\<^verbatim>\<open>try { m } catch (e) { h }\<close>.\<close>

definition try_catch :: "error + 'a \<Rightarrow> (error \<Rightarrow> error + 'a) \<Rightarrow> error + 'a" where
  "try_catch m h = (case m of Inl e \<Rightarrow> h e | Inr v \<Rightarrow> Inr v)"

text \<open>
  \<^verbatim>\<open>Promise.all\<close>: resolves with all the values, in the order of the promises, when every
  promise resolves, and rejects as soon as one of them rejects. Which rejection is
  reported when several promises reject depends on timing; the model reports the first in
  list order, and no theorem below depends on which one it is.
\<close>

fun promise_all :: "(error + 'a) list \<Rightarrow> error + 'a list" where
  "promise_all [] = Inr []"
| "promise_all (p # ps) =
     (case p of
        Inl e \<Rightarrow> Inl e
      | Inr v \<Rightarrow> (case promise_all ps of Inl e \<Rightarrow> Inl e | Inr vs \<Rightarrow> Inr (v # vs)))"

text \<open>
  \<^verbatim>\<open>String.prototype.toLowerCase\<close> on the ASCII range (an Isabelle \<open>char\<close> is a byte). It is
  used where one side of the comparison is a hexadecimal address or one of the role names
  \<open>student\<close> and \<open>provider\<close>, on which it decides the comparison as the runtime does. The
  free-text student identifier is lowered by the runtime's own function, which is a
  parameter of the world (\<open>lowerCase\<close> below).
\<close>

definition toLowerCase_char :: "char \<Rightarrow> char" where
  "toLowerCase_char c =
     (case map_of (zip ''ABCDEFGHIJKLMNOPQRSTUVWXYZ'' ''abcdefghijklmnopqrstuvwxyz'') c of
        Some l \<Rightarrow> l
      | None \<Rightarrow> c)"

definition toLowerCase :: "string \<Rightarrow> string" where
  "toLowerCase s = map toLowerCase_char s"

text \<open>\<^verbatim>\<open>s.replace(pat, rep)\<close> with a string pattern: the first occurrence only.\<close>

fun replace :: "string \<Rightarrow> string \<Rightarrow> string \<Rightarrow> string" where
  "replace [] pat rep = (if pat = [] then rep else [])"
| "replace (c # cs) pat rep =
     (if take (length pat) (c # cs) = pat then rep @ drop (length pat) (c # cs)
      else c # replace cs pat rep)"

text \<open>\<^verbatim>\<open>!x\<close> for a value of type \<^verbatim>\<open>string | null | undefined\<close>: the empty string is falsy too.\<close>

definition falsy :: "string option \<Rightarrow> bool" where
  "falsy x = (x = None \<or> x = Some [])"

text \<open>\<^verbatim>\<open>BigInt.prototype.toString\<close>: the decimal digits of a token id.\<close>

fun toString :: "nat \<Rightarrow> string" where
  "toString n =
     (if n < 10 then [char_of (48 + n)] else toString (n div 10) @ [char_of (48 + n mod 10)])"

declare toString.simps [simp del]

subsection \<open>JSON documents and gateway responses\<close>

text \<open>
  What \<^verbatim>\<open>response.json()\<close> resolves with. A \<open>JObject\<close> lists the properties of the parsed
  object (each key once).
\<close>

datatype json =
    JNull
  | JBool bool
  | JNumber int
  | JString string
  | JArray "json list"
  | JObject "(string \<times> json) list"

text \<open>
  A \<^verbatim>\<open>fetch\<close> either rejects (transport failure: \<open>Inl\<close>) or resolves with a response.
  \<open>ok\<close> is \<^verbatim>\<open>response.ok\<close> (a 2xx status); \<open>body\<close> is what \<^verbatim>\<open>response.json()\<close> resolves with,
  \<open>None\<close> when the body is not JSON and \<^verbatim>\<open>json()\<close> rejects.
\<close>

datatype response = Response (ok: bool) (body: "json option")

definition json_of :: "response \<Rightarrow> error + json" where
  "json_of r = (case body r of None \<Rightarrow> Inl (Rejected ''Unexpected token'') | Some j \<Rightarrow> Inr j)"

section \<open>Data model\<close>

record RegisteredUser =
  address :: string
  role :: string
  metadataHash :: string

text \<open>The struct \<^verbatim>\<open>certificateRequests(id)\<close> returns, and the object the provider dashboard gets.\<close>

record Request =
  req_student :: string
  req_institute :: string
  req_name :: string
  req_message :: string
  req_studentMetadataHash :: string
  req_approved :: bool

record CertificateRequest =
  id' :: nat
  student :: string
  institute :: string
  name :: string
  message :: string
  studentMetadataHash :: string
  approved :: bool

text \<open>The tuple \<^verbatim>\<open>getCertificateDetails(id)\<close> returns.\<close>

record Details =
  det_name :: string
  det_institute :: string
  det_issueDate :: nat
  det_certificateType :: string
  det_student :: string

record Certificate =
  cert_id :: string
  cert_name :: string
  cert_institute :: string
  cert_issueDate :: nat
  cert_certificateType :: string
  cert_student :: string
  cert_tokenURI :: string
  cert_metadata :: json

record UserData =
  ud_role :: string
  ud_registered :: bool

text \<open>The state-changing calls of the two contracts, with their arguments.\<close>

datatype tx =
    TxRegisterUser string string
  | TxAuthorizeInstitute string
  | TxRevokeInstitute string
  | TxRequestCertificate string string string string
  | TxApproveCertificateRequest nat string string string
  | TxCancelCertificateRequest nat

text \<open>What is handed to the content store: a file (by its name) or a JSON document.\<close>

datatype blob = File string | Json json

datatype wallet = Null | BrowserProvider

text \<open>
  Everything outside the contexts, as one record: the session (\<^verbatim>\<open>useEthereum()\<close> and the two
  configured addresses), what each read of the two contracts answers at this moment, what
  the two gateways answer for a content identifier, what the upload helpers of
  \<^verbatim>\<open>utils/ipfs\<close> and the ledger answer to a write, and two logs: the contract writes
  (\<open>calls\<close>) and the uploads (\<open>uploads\<close>) the contexts have issued so far. The contracts
  and the upload helpers are not part of the sources; their answers are parameters. So is
  \<open>lowerCase\<close>, the \<^verbatim>\<open>String.prototype.toLowerCase\<close> of the runtime on arbitrary text (which
  lowers every cased letter of Unicode, not the letters A to Z only): nothing is assumed
  of it.
\<close>

record world =
  provider :: wallet
  account :: "string option"
  userRegistryAddress :: string
  certificateNFTAddress :: string
  getSigner :: "error + unit"
  getAllUsers :: "error + string list"
  getUser :: "string \<Rightarrow> error + string \<times> string"
  isUserRegistered :: "string \<Rightarrow> error + bool"
  owner :: "error + string"
  authorizedInstitutes :: "string \<Rightarrow> error + bool"
  requestCounter :: "error + nat"
  certificateRequests :: "nat \<Rightarrow> error + Request"
  getStudentCertificates :: "string \<Rightarrow> error + nat list"
  getCertificateDetails :: "nat \<Rightarrow> error + Details"
  tokenURI :: "nat \<Rightarrow> error + string"
  pinata :: "string \<Rightarrow> error + response"
  ipfs_io :: "string \<Rightarrow> error + response"
  uploadFile :: "string \<Rightarrow> error + string option"
  uploadJSON :: "json \<Rightarrow> error + string option"
  exec :: "tx \<Rightarrow> error + unit"
  calls :: "tx list"
  uploads :: "blob list"
  userData :: "UserData option"
  loading :: bool
  lowerCase :: "string \<Rightarrow> string"

section \<open>The ledger gateway\<close>

text \<open>
  \<^verbatim>\<open>getContract\<close> and \<^verbatim>\<open>getCertificateContract\<close> return \<^verbatim>\<open>null\<close> without a provider or with
  an empty address; the model keeps whether a contract object came back.
\<close>

definition getContract :: "world \<Rightarrow> bool" where
  "getContract w = (if provider w = Null \<or> userRegistryAddress w = [] then False else True)"

definition getCertificateContract :: "world \<Rightarrow> bool" where
  "getCertificateContract w =
     (if provider w = Null \<or> certificateNFTAddress w = [] then False else True)"

text \<open>
  Modelled from the spec: the \<^verbatim>\<open>CertificateNFT\<close> contract is not among the sources. An
  accepted \<^verbatim>\<open>authorizeInstitute\<close> or \<^verbatim>\<open>revokeInstitute\<close> sets what \<^verbatim>\<open>authorizedInstitutes\<close>
  answers for that address; the bookkeeping of the other writes is not tracked.
\<close>

definition ledger_effect :: "tx \<Rightarrow> world \<Rightarrow> world" where
  "ledger_effect t w =
     (case t of
        TxAuthorizeInstitute a \<Rightarrow>
          w\<lparr>authorizedInstitutes := (authorizedInstitutes w)(a := Inr True)\<rparr>
      | TxRevokeInstitute a \<Rightarrow>
          w\<lparr>authorizedInstitutes := (authorizedInstitutes w)(a := Inr False)\<rparr>
      | _ \<Rightarrow> w)"

text \<open>
  \<^verbatim>\<open>const tx = await contract.method(args); await tx.wait();\<close> The call is logged; when the
  ledger rejects it (at submission or at confirmation) the operation throws and no ledger
  state changes.
\<close>

definition send :: "tx \<Rightarrow> world \<Rightarrow> (error + unit) \<times> world" where
  "send t w =
     (let w' = w\<lparr>calls := calls w @ [t]\<rparr>
      in case exec w t of
           Inl e \<Rightarrow> (Inl e, w')
         | Inr u \<Rightarrow> (Inr (), ledger_effect t w'))"

section \<open>Authorization: the owner gate\<close>

definition checkIsOwner :: "world \<Rightarrow> string \<Rightarrow> error + bool" where
  "checkIsOwner w addr =
     (if provider w = Null then Inr False
      else if getCertificateContract w = False then Inr False
      else try_catch
             (await (owner w) (\<lambda>owner'. Inr (toLowerCase owner' = toLowerCase addr)))
             (\<lambda>error. Inr False))"

text \<open>
  \<^verbatim>\<open>authorizeInstitute\<close> and \<^verbatim>\<open>revokeInstitute\<close> differ in the contract method only.
  \<open>the (account w)\<close> is evaluated only behind the \<^verbatim>\<open>!account\<close> guard.
\<close>

definition setAuthorization :: "(string \<Rightarrow> tx) \<Rightarrow> world \<Rightarrow> string \<Rightarrow> (error + unit) \<times> world" where
  "setAuthorization method w instituteAddress =
     (if provider w = Null \<or> falsy (account w) then (Inl (Thrown ''Wallet not connected''), w)
      else case getSigner w of
        Inl e \<Rightarrow> (Inl e, w)
      | Inr signer \<Rightarrow>
         (case owner w of
            Inl e \<Rightarrow> (Inl e, w)
          | Inr owner' \<Rightarrow>
              if toLowerCase owner' \<noteq> toLowerCase (the (account w))
              then (Inl (Thrown ''You are not the contract owner''), w)
              else send (method instituteAddress) w))"

definition authorizeInstitute :: "world \<Rightarrow> string \<Rightarrow> (error + unit) \<times> world" where
  "authorizeInstitute w instituteAddress = setAuthorization TxAuthorizeInstitute w instituteAddress"

definition revokeInstitute :: "world \<Rightarrow> string \<Rightarrow> (error + unit) \<times> world" where
  "revokeInstitute w instituteAddress = setAuthorization TxRevokeInstitute w instituteAddress"

section \<open>The identity registry: enumeration and the cached role view\<close>

definition getAllRegisteredUsers :: "world \<Rightarrow> error + RegisteredUser list" where
  "getAllRegisteredUsers w =
     (if provider w = Null then Inl (Thrown ''Provider not available'')
      else if getContract w = False then Inl (Thrown ''User Registry contract not initialized'')
      else await (getAllUsers w) (\<lambda>addresses.
        promise_all
          (map (\<lambda>address'.
                  await (getUser w address') (\<lambda>(role', metadataHash').
                    Inr \<lparr>address = address', role = role', metadataHash = metadataHash'\<rparr>))
             addresses)))"

definition getRegisteredUser :: "world \<Rightarrow> string \<Rightarrow> error + RegisteredUser" where
  "getRegisteredUser w address' =
     (if provider w = Null then Inl (Thrown ''Provider not available'')
      else if getContract w = False then Inl (Thrown ''User Registry contract not initialized'')
      else await (getUser w address') (\<lambda>(role', metadataHash').
        Inr \<lparr>address = address', role = role', metadataHash = metadataHash'\<rparr>))"

text \<open>
  \<^verbatim>\<open>fetchUserData\<close> only touches the React state \<^verbatim>\<open>userData\<close>/\<^verbatim>\<open>loading\<close>; every failure is
  caught and turned into \<^verbatim>\<open>setUserData(null)\<close>.
\<close>

definition fetchUserData :: "world \<Rightarrow> world" where
  "fetchUserData w =
     (if falsy (account w) \<or> provider w = Null then w
      else
        (case try_catch
                (if getContract w = False
                 then Inl (Thrown ''User Registry contract not initialized'')
                 else await (getUser w (the (account w))) (\<lambda>(role', hash').
                        await (isUserRegistered w (the (account w))) (\<lambda>registered.
                          Inr (Some \<lparr>ud_role = toLowerCase role', ud_registered = registered\<rparr>))))
                (\<lambda>error. Inr None) of
           Inr ud \<Rightarrow> w\<lparr>userData := ud, loading := False\<rparr>
         | Inl e \<Rightarrow> w\<lparr>loading := False\<rparr>))"

section \<open>The content resolver, as each caller inlines it\<close>

text \<open>
  \<^verbatim>\<open>const response = await fetch(url); if (!response.ok) throw new Error(msg);
  return await response.json();\<close>
\<close>

definition fetch_checked :: "error + response \<Rightarrow> string \<Rightarrow> error + json" where
  "fetch_checked fetched msg =
     await fetched (\<lambda>response. if ok response = False then Inl (Thrown msg) else json_of response)"

text \<open>The gateway \<^verbatim>\<open>gateway.pinata.cloud\<close> first, \<^verbatim>\<open>ipfs.io\<close> in the \<^verbatim>\<open>catch\<close> of the first attempt.\<close>

definition fetchStudentMetadata :: "world \<Rightarrow> string \<Rightarrow> string \<Rightarrow> error + json" where
  "fetchStudentMetadata w studentAddress metadataHash' =
     (if metadataHash' = [] then Inr JNull
      else try_catch (fetch_checked (pinata w metadataHash') ''Pinata fetch failed'')
             (\<lambda>err. try_catch (fetch_checked (ipfs_io w metadataHash') ''IPFS.io fetch failed'')
                      (\<lambda>fallbackErr. Inr JNull)))"

definition fetchProviderMetadata :: "world \<Rightarrow> string \<Rightarrow> error + json" where
  "fetchProviderMetadata w address' =
     (if provider w = Null then Inr JNull
      else await (getSigner w) (\<lambda>signer.
        await (getUser w address') (\<lambda>(role', metadataHash').
          if metadataHash' = [] then Inr JNull
          else try_catch (fetch_checked (pinata w metadataHash') ''Pinata fetch failed'')
                 (\<lambda>err. try_catch (fetch_checked (ipfs_io w metadataHash') ''ipfs.io fetch failed'')
                          (\<lambda>fallbackErr. Inr JNull)))))"

text \<open>
  \<^verbatim>\<open>fetchStudentProfile\<close>: here the first \<^verbatim>\<open>fetch\<close> stands directly in the outer \<^verbatim>\<open>try\<close>, and
  the fallback is taken only in the \<^verbatim>\<open>if (!response.ok)\<close> branch.
\<close>

definition fetchStudentProfile :: "world \<Rightarrow> string \<Rightarrow> error + json" where
  "fetchStudentProfile w address' =
     (if provider w = Null then Inr JNull
      else try_catch
             (if getContract w = False
              then Inl (Thrown ''User Registry contract not initialized'')
              else await (getUser w address') (\<lambda>(role', ipfsHash).
                if ipfsHash = [] then Inr JNull
                else await (pinata w ipfsHash) (\<lambda>response.
                  if ok response = False
                  then await (ipfs_io w ipfsHash) (\<lambda>response'.
                         if ok response' = False
                         then Inl (Thrown ''Both gateways failed to fetch profile metadata'')
                         else json_of response')
                  else json_of response)))
             (\<lambda>error. Inr JNull))"

text \<open>
  The metadata of one certificate in \<^verbatim>\<open>getCertificatesByAddress\<close> (\<^verbatim>\<open>metadata\<close> starts as
  \<^verbatim>\<open>null\<close> and is assigned in whichever \<^verbatim>\<open>try\<close> succeeds) ...
\<close>

definition certificate_metadata :: "world \<Rightarrow> string \<Rightarrow> error + json" where
  "certificate_metadata w tokenURI' =
     (let metadataHash' = replace tokenURI' ''ipfs://'' []
      in try_catch (fetch_checked (pinata w metadataHash') ''Pinata fetch failed'')
           (\<lambda>err. try_catch (fetch_checked (ipfs_io w metadataHash') ''ipfs.io fetch failed'')
                    (\<lambda>fallbackErr. Inr JNull)))"

text \<open>
  ... and in \<^verbatim>\<open>handleSearch\<close> of the certificate search component: one gateway, no test of
  \<^verbatim>\<open>response.ok\<close>, no second attempt.
\<close>

definition handleSearch_metadata :: "world \<Rightarrow> string \<Rightarrow> error + json" where
  "handleSearch_metadata w tokenURI' =
     try_catch
       (let metadataHash' = replace tokenURI' ''ipfs://'' []
        in await (ipfs_io w metadataHash') (\<lambda>response. json_of response))
       (\<lambda>err. Inr JNull)"

text \<open>
  The resolver as the specification words it, to compare the inlined copies with: a
  gateway serves an identifier when the fetch resolves with a success status and a JSON
  body; \<open>get\<close> goes through the ordered gateway list and yields the payload of the first
  gateway that serves, or nothing when the list is exhausted.
\<close>

definition served :: "error + response \<Rightarrow> json option" where
  "served fetched =
     (case fetched of
        Inl e \<Rightarrow> None
      | Inr r \<Rightarrow> (if ok r then body r else None))"

fun first_served :: "(error + response) list \<Rightarrow> json option" where
  "first_served [] = None"
| "first_served (r # rs) = (case served r of Some j \<Rightarrow> Some j | None \<Rightarrow> first_served rs)"

definition resolver_get :: "world \<Rightarrow> string \<Rightarrow> json option" where
  "resolver_get w contentId = first_served [pinata w contentId, ipfs_io w contentId]"

text \<open>
  The soft-loaded projection: the resolved document, or \<^verbatim>\<open>null\<close> when there is no pointer or
  the resolver finds nothing.
\<close>

definition metadata_or_null :: "world \<Rightarrow> string \<Rightarrow> json" where
  "metadata_or_null w contentId =
     (if contentId = [] then JNull
      else case resolver_get w contentId of Some j \<Rightarrow> j | None \<Rightarrow> JNull)"

section \<open>Directory and search\<close>

text \<open>
  \<^verbatim>\<open>metadata?.studentId\<close>: \<^verbatim>\<open>undefined\<close> (\<open>None\<close>) for \<^verbatim>\<open>null\<close>, for a value that is not an
  object and for an object without the property.
\<close>

definition studentId_of :: "json \<Rightarrow> json option" where
  "studentId_of metadata =
     (case metadata of JObject props \<Rightarrow> map_of props ''studentId'' | _ \<Rightarrow> None)"

text \<open>
  \<^verbatim>\<open>x?.toLowerCase()\<close>: \<^verbatim>\<open>undefined\<close> for a nullish \<open>x\<close>, the lowered string for a string, and
  a \<^verbatim>\<open>TypeError\<close> for any other value, which has no such method.
\<close>

definition opt_toLowerCase :: "world \<Rightarrow> json option \<Rightarrow> error + string option" where
  "opt_toLowerCase w x =
     (case x of
        None \<Rightarrow> Inr None
      | Some JNull \<Rightarrow> Inr None
      | Some (JString s) \<Rightarrow> Inr (Some (lowerCase w s))
      | Some _ \<Rightarrow> Inl (Thrown ''toLowerCase is not a function''))"

text \<open>
  A registered user matches an external student identifier when the \<open>studentId\<close> field of
  the resolved metadata is a string and the runtime lowers it and the identifier to the
  same string.
\<close>

definition student_matches :: "world \<Rightarrow> string \<Rightarrow> RegisteredUser \<Rightarrow> bool" where
  "student_matches w studentId u =
     (case studentId_of (metadata_or_null w (metadataHash u)) of
        Some (JString s) \<Rightarrow> lowerCase w s = lowerCase w studentId
      | _ \<Rightarrow> False)"

text \<open>
  The \<^verbatim>\<open>for (const student of students)\<close> loop: the body is a \<^verbatim>\<open>try\<close> whose \<^verbatim>\<open>catch\<close> only
  logs, so an exception moves on to the next student.
\<close>

fun students_loop :: "world \<Rightarrow> string \<Rightarrow> RegisteredUser list \<Rightarrow> error + (string \<times> json) option" where
  "students_loop w studentId [] = Inr None"
| "students_loop w studentId (student' # rest) =
     (case try_catch
             (await (fetchStudentMetadata w (address student') (metadataHash student'))
                (\<lambda>metadata.
                  await (opt_toLowerCase w (studentId_of metadata)) (\<lambda>sid.
                    if sid = Some (lowerCase w studentId)
                    then Inr (Some (address student', metadata))
                    else Inr None)))
             (\<lambda>error. Inr None) of
        Inr (Some found) \<Rightarrow> Inr (Some found)
      | _ \<Rightarrow> students_loop w studentId rest)"

definition getStudentByStudentId :: "world \<Rightarrow> string \<Rightarrow> error + (string \<times> json) option" where
  "getStudentByStudentId w studentId =
     (if provider w = Null then Inr None
      else try_catch
             (await (getAllRegisteredUsers w) (\<lambda>allUsers.
                let students = filter (\<lambda>user. toLowerCase (role user) = ''student'') allUsers
                in students_loop w studentId students))
             (\<lambda>error. Inr None))"

text \<open>
  One element of \<^verbatim>\<open>Promise.all(certificateIds.map(...))\<close> in \<^verbatim>\<open>getCertificatesByAddress\<close>.
  \<^verbatim>\<open>Number(issueDate)\<close> is kept as the number the ledger holds (exact below \<open>2^53\<close>).
\<close>

definition certificate_of :: "world \<Rightarrow> nat \<Rightarrow> error + Certificate" where
  "certificate_of w cid =
     await (getCertificateDetails w cid) (\<lambda>d.
       await (tokenURI w cid) (\<lambda>tokenURI'.
         await (certificate_metadata w tokenURI') (\<lambda>metadata.
           Inr \<lparr>cert_id = toString cid,
                cert_name = det_name d,
                cert_institute = det_institute d,
                cert_issueDate = det_issueDate d,
                cert_certificateType = det_certificateType d,
                cert_student = det_student d,
                cert_tokenURI = tokenURI',
                cert_metadata = metadata\<rparr>)))"

definition getCertificatesByAddress :: "world \<Rightarrow> string \<Rightarrow> error + Certificate list" where
  "getCertificatesByAddress w searchAddress =
     (if provider w = Null then Inl (Thrown ''Provider not available'')
      else if getCertificateContract w = False
      then Inl (Thrown ''CertificateNFT contract not initialized'')
      else await (getStudentCertificates w searchAddress) (\<lambda>certificateIds.
             promise_all (map (certificate_of w) certificateIds)))"

section \<open>Provider classification\<close>

text \<open>
  Both functions build \<^verbatim>\<open>{ ...provider, isAuthorized }\<close> for every provider inside one
  \<^verbatim>\<open>Promise.all\<close>, with no \<^verbatim>\<open>try\<close> around the read; they differ in the final filter.
\<close>

definition with_authorization :: "world \<Rightarrow> RegisteredUser list \<Rightarrow> error + (RegisteredUser \<times> bool) list" where
  "with_authorization w providers =
     promise_all
       (map (\<lambda>provider'.
               await (authorizedInstitutes w (address provider')) (\<lambda>isAuthorized.
                 Inr (provider', isAuthorized)))
          providers)"

definition fetchAuthorizedProviders :: "world \<Rightarrow> error + (RegisteredUser \<times> bool) list" where
  "fetchAuthorizedProviders w =
     (if provider w = Null then Inr []
      else await (getAllRegisteredUsers w) (\<lambda>allUsers.
        let providers = filter (\<lambda>user. toLowerCase (role user) = ''provider'') allUsers
        in if getCertificateContract w = False then Inr []
           else await (with_authorization w providers) (\<lambda>authorizedProviders.
                  Inr (filter (\<lambda>provider'. snd provider') authorizedProviders))))"

definition fetchPendingProviders :: "world \<Rightarrow> error + (RegisteredUser \<times> bool) list" where
  "fetchPendingProviders w =
     (if provider w = Null then Inr []
      else await (getAllRegisteredUsers w) (\<lambda>allUsers.
        let providers = filter (\<lambda>user. toLowerCase (role user) = ''provider'') allUsers
        in if getCertificateContract w = False then Inr []
           else await (with_authorization w providers) (\<lambda>pendingProviders.
                  Inr (filter (\<lambda>provider'. snd provider' = False) pendingProviders))))"

definition checkInstituteAuthorization :: "world \<Rightarrow> string \<Rightarrow> error + bool" where
  "checkInstituteAuthorization w address' =
     (if provider w = Null then Inr False
      else await (getSigner w) (\<lambda>signer. authorizedInstitutes w address'))"

section \<open>The issuance workflow\<close>

text \<open>
  One promise of \<^verbatim>\<open>requestPromises\<close>. The callback returns the request object, \<^verbatim>\<open>undefined\<close>
  (no \<^verbatim>\<open>return\<close> when the test fails) or \<^verbatim>\<open>null\<close> (in the \<^verbatim>\<open>catch\<close>); \<^verbatim>\<open>filter(Boolean)\<close>
  drops the last two alike, so both are \<open>None\<close>.
\<close>

definition request_promise :: "world \<Rightarrow> nat \<Rightarrow> error + CertificateRequest option" where
  "request_promise w requestId =
     try_catch
       (await (certificateRequests w requestId) (\<lambda>req.
          if toLowerCase (req_institute req) = toLowerCase (the (account w))
             \<and> req_approved req = False
          then Inr (Some \<lparr>id' = requestId,
                         student = req_student req,
                         institute = req_institute req,
                         name = req_name req,
                         message = req_message req,
                         studentMetadataHash = req_studentMetadataHash req,
                         approved = req_approved req\<rparr>)
          else Inr None))
       (\<lambda>error. Inr None)"

text \<open>
  \<^verbatim>\<open>Array.from({ length: requestCount }, (_, i) => i + 1)\<close> throws a \<^verbatim>\<open>RangeError\<close> for a
  length of \<open>2^32\<close> or more (which \<^verbatim>\<open>Number\<close> does not round below \<open>2^32\<close>); the outer
  \<^verbatim>\<open>catch\<close> turns it, like every other failure before the scan, into \<^verbatim>\<open>[]\<close>.
\<close>

definition fetchProviderCertificateRequests :: "world \<Rightarrow> error + CertificateRequest list" where
  "fetchProviderCertificateRequests w =
     (if provider w = Null \<or> falsy (account w) then Inr []
      else try_catch
             (await (getSigner w) (\<lambda>signer.
                await (requestCounter w) (\<lambda>requestCount.
                  if 4294967295 < requestCount then Inl (Thrown ''Invalid array length'')
                  else await (promise_all (map (request_promise w) (map Suc [0..<requestCount])))
                         (\<lambda>results. Inr (List.map_filter (\<lambda>r. r) results)))))
             (\<lambda>error. Inr []))"

text \<open>
  The entry of one request id in the listing, as the specification words it: present when
  the fetch succeeds, the institute is the given account up to case, and the request is
  not approved.
\<close>

definition pending_entry :: "world \<Rightarrow> string \<Rightarrow> nat \<Rightarrow> CertificateRequest option" where
  "pending_entry w acct i =
     (case certificateRequests w i of
        Inl e \<Rightarrow> None
      | Inr q \<Rightarrow>
          if toLowerCase (req_institute q) = toLowerCase acct \<and> req_approved q = False
          then Some \<lparr>id' = i, student = req_student q, institute = req_institute q,
                     name = req_name q, message = req_message q,
                     studentMetadataHash = req_studentMetadataHash q,
                     approved = req_approved q\<rparr>
          else None)"


definition approveCertificateRequest ::
  "world \<Rightarrow> nat \<Rightarrow> string \<Rightarrow> string \<Rightarrow> string \<Rightarrow> (error + unit) \<times> world" where
  "approveCertificateRequest w requestId certificateType tokenURI' institutionName =
     (if provider w = Null \<or> falsy (account w) then (Inl (Thrown ''Wallet not connected''), w)
      else case getSigner w of
        Inl e \<Rightarrow> (Inl e, w)
      | Inr signer \<Rightarrow>
          send (TxApproveCertificateRequest requestId certificateType tokenURI' institutionName) w)"

definition cancelCertificateRequest :: "world \<Rightarrow> nat \<Rightarrow> (error + unit) \<times> world" where
  "cancelCertificateRequest w requestId =
     (if provider w = Null \<or> falsy (account w) then (Inl (Thrown ''Wallet not connected''), w)
      else case getSigner w of
        Inl e \<Rightarrow> (Inl e, w)
      | Inr signer \<Rightarrow> send (TxCancelCertificateRequest requestId) w)"

section \<open>The registration workflow\<close>

datatype role_name = Student | Provider

definition role_string :: "role_name \<Rightarrow> string" where
  "role_string r = (case r of Student \<Rightarrow> ''student'' | Provider \<Rightarrow> ''provider'')"

record StudentData =
  sd_name :: string
  sd_email :: string
  sd_studentId :: string

record ProviderData =
  pd_institutionName :: string
  pd_accreditationNumber :: string
  pd_document :: string

text \<open>
  The helpers of \<^verbatim>\<open>utils/ipfs\<close> resolve with an object whose \<^verbatim>\<open>cid\<close> may be missing
  (\<open>None\<close>), or reject. Each call is logged.
\<close>

definition uploadFileToIPFS :: "string \<Rightarrow> world \<Rightarrow> (error + string option) \<times> world" where
  "uploadFileToIPFS file w = (uploadFile w file, w\<lparr>uploads := uploads w @ [File file]\<rparr>)"

definition uploadJSONToIPFS :: "json \<Rightarrow> world \<Rightarrow> (error + string option) \<times> world" where
  "uploadJSONToIPFS j w = (uploadJSON w j, w\<lparr>uploads := uploads w @ [Json j]\<rparr>)"

text \<open>A property whose value is \<^verbatim>\<open>undefined\<close> is not part of the serialised document.\<close>

definition js_prop :: "string \<Rightarrow> string option \<Rightarrow> (string \<times> json) list" where
  "js_prop k v = (case v of None \<Rightarrow> [] | Some s \<Rightarrow> [(k, JString s)])"

text \<open>The \<^verbatim>\<open>if (role === 'student') ... else ...\<close> block that builds \<^verbatim>\<open>metadata\<close>.\<close>

definition build_metadata ::
  "world \<Rightarrow> role_name \<Rightarrow> StudentData option \<Rightarrow> ProviderData option \<Rightarrow> (error + json) \<times> world" where
  "build_metadata w role' studentData providerData =
     (case role' of
        Student \<Rightarrow>
          (case studentData of
             None \<Rightarrow> (Inl (Thrown ''Missing student data''), w)
           | Some sd \<Rightarrow>
               (Inr (JObject [(''name'', JString (sd_name sd)),
                              (''email'', JString (sd_email sd)),
                              (''studentId'', JString (sd_studentId sd))]), w))
      | Provider \<Rightarrow>
          (case providerData of
             None \<Rightarrow> (Inl (Thrown ''Missing provider data''), w)
           | Some pd \<Rightarrow>
               (case uploadFileToIPFS (pd_document pd) w of
                  (Inl e, w1) \<Rightarrow> (Inl e, w1)
                | (Inr docCid, w1) \<Rightarrow>
                    (Inr (JObject ([(''institutionName'', JString (pd_institutionName pd)),
                                    (''accreditationNumber'', JString (pd_accreditationNumber pd))]
                                   @ js_prop ''documentCid'' docCid)), w1))))"

definition registerUser ::
  "world \<Rightarrow> role_name \<Rightarrow> StudentData option \<Rightarrow> ProviderData option \<Rightarrow> (error + unit) \<times> world" where
  "registerUser w role' studentData providerData =
     (if provider w = Null \<or> falsy (account w)
      then (Inl (Thrown ''Please connect your wallet first''), w)
      else if userRegistryAddress w = [] then (Inl (Thrown ''Contract address not configured''), w)
      else case getSigner w of
        Inl e \<Rightarrow> (Inl e, w)
      | Inr signer \<Rightarrow>
         (case build_metadata w role' studentData providerData of
            (Inl e, w1) \<Rightarrow> (Inl e, w1)
          | (Inr metadata, w1) \<Rightarrow>
             (case uploadJSONToIPFS metadata w1 of
                (Inl e, w2) \<Rightarrow> (Inl e, w2)
              | (Inr cid, w2) \<Rightarrow>
                  if falsy cid then (Inl (Thrown ''Failed to upload metadata to IPFS''), w2)
                  else (case send (TxRegisterUser (role_string role') (the cid)) w2 of
                          (Inl e, w3) \<Rightarrow> (Inl e, w3)
                        | (Inr u, w3) \<Rightarrow> (Inr (), fetchUserData w3)))))"

section \<open>A concrete session\<close>

text \<open>
  A small world to run the operations on. Three students and two providers are registered
  (the second provider under the role spelling \<open>Provider\<close>); \<open>0xAA\<close> is authorized, the
  read for \<open>0xBB\<close> answers \<open>false\<close>; the ledger owner is \<open>0xOWNER\<close>; the active account is
  the provider \<open>0xAA\<close>. Five requests exist, of which the third cannot be fetched. The
  student \<open>0x51\<close> holds the certificates 7, 12 and 15. The gateways: \<open>QmS1\<close>, \<open>QmS3\<close> and
  \<open>QmC12\<close> are served by the first gateway only (the second answers 500 for \<open>QmC12\<close>),
  \<open>QmS2\<close> and \<open>QmC7\<close> by the second only (the first answers 500 for \<open>QmS2\<close> and is
  unreachable for \<open>QmC7\<close>), \<open>QmC15\<close> by neither.
\<close>

definition demo_getUser :: "string \<Rightarrow> error + string \<times> string" where
  "demo_getUser a =
     (if a = ''0x51'' then Inr (''student'', ''QmS1'')
      else if a = ''0x52'' then Inr (''student'', ''QmS2'')
      else if a = ''0x53'' then Inr (''Student'', ''QmS3'')
      else if a = ''0xAA'' then Inr (''provider'', ''QmAA'')
      else if a = ''0xBB'' then Inr (''Provider'', ''QmBB'')
      else Inr ([], []))"

definition demo_requests :: "nat \<Rightarrow> error + Request" where
  "demo_requests i =
     (if i = 1 then Inr \<lparr>req_student = ''0x51'', req_institute = ''0xaa'', req_name = ''BSc'',
                        req_message = ''please'', req_studentMetadataHash = ''QmS1'',
                        req_approved = False\<rparr>
      else if i = 2 then Inr \<lparr>req_student = ''0x52'', req_institute = ''0xBB'', req_name = ''MSc'',
                        req_message = ''hello'', req_studentMetadataHash = ''QmS2'',
                        req_approved = False\<rparr>
      else if i = 4 then Inr \<lparr>req_student = ''0x52'', req_institute = ''0xAA'', req_name = ''PhD'',
                        req_message = ''done'', req_studentMetadataHash = ''QmS2'',
                        req_approved = True\<rparr>
      else if i = 5 then Inr \<lparr>req_student = ''0x53'', req_institute = ''0xAA'', req_name = ''BA'',
                        req_message = ''hi'', req_studentMetadataHash = ''QmS3'',
                        req_approved = False\<rparr>
      else Inl (Rejected ''call revert exception''))"

definition demo_details :: "nat \<Rightarrow> error + Details" where
  "demo_details i =
     (if i = 7 then Inr \<lparr>det_name = ''BSc'', det_institute = ''Uni A'', det_issueDate = 1700000000,
                        det_certificateType = ''Diploma'', det_student = ''0x51''\<rparr>
      else if i = 12 then Inr \<lparr>det_name = ''MSc'', det_institute = ''Uni A'',
                        det_issueDate = 1800000000, det_certificateType = ''Degree'',
                        det_student = ''0x51''\<rparr>
      else if i = 15 then Inr \<lparr>det_name = ''PhD'', det_institute = ''Uni B'',
                        det_issueDate = 1900000000, det_certificateType = ''Degree'',
                        det_student = ''0x51''\<rparr>
      else Inl (Rejected ''call revert exception''))"

definition demo_pinata :: "string \<Rightarrow> error + response" where
  "demo_pinata h =
     (if h = ''QmS1'' then Inr (Response True (Some (JObject [(''name'', JString ''Ann''),
                                                              (''studentId'', JString ''s99'')])))
      else if h = ''QmS2'' then Inr (Response False (Some (JObject [(''error'', JString ''500'')])))
      else if h = ''QmS3'' then Inr (Response True (Some (JObject [(''studentId'', JNumber 100)])))
      else if h = ''QmC12'' then Inr (Response True (Some (JObject [(''image'', JString ''ipfs://Qm12'')])))
      else Inl (Rejected ''Failed to fetch''))"

definition demo_ipfs_io :: "string \<Rightarrow> error + response" where
  "demo_ipfs_io h =
     (if h = ''QmS2'' then Inr (Response True (Some (JObject [(''name'', JString ''Bob''),
                                                              (''studentId'', JString ''S100'')])))
      else if h = ''QmC7'' then Inr (Response True (Some (JObject [(''image'', JString ''ipfs://Qm7'')])))
      else if h = ''QmC12'' then Inr (Response False None)
      else Inl (Rejected ''Failed to fetch''))"

text \<open>
  The lowering of the session: the letters A to Z, and the identifier \<open>O-umlaut 1\<close>
  (in UTF-8 the bytes C3 96 31), which the runtime lowers to \<open>o-umlaut 1\<close> (C3 B6 31). On
  every string of the session this is what \<^verbatim>\<open>String.prototype.toLowerCase\<close> returns.
\<close>

definition demo_lowerCase :: "string \<Rightarrow> string" where
  "demo_lowerCase s =
     (if s = [CHR 0xC3, CHR 0x96, CHR ''1''] then [CHR 0xC3, CHR 0xB6, CHR ''1'']
      else toLowerCase s)"

definition demo :: world where
  "demo =
     \<lparr>provider = BrowserProvider,
      account = Some ''0xAA'',
      userRegistryAddress = ''0xREGISTRY'',
      certificateNFTAddress = ''0xLEDGER'',
      getSigner = Inr (),
      getAllUsers = Inr [''0x51'', ''0xAA'', ''0x52'', ''0xBB'', ''0x53''],
      getUser = demo_getUser,
      isUserRegistered = (\<lambda>a. Inr (a \<in> set [''0x51'', ''0xAA'', ''0x52'', ''0xBB'', ''0x53''])),
      owner = Inr ''0xOWNER'',
      authorizedInstitutes = (\<lambda>a. Inr (a = ''0xAA'')),
      requestCounter = Inr 5,
      certificateRequests = demo_requests,
      getStudentCertificates = (\<lambda>a. Inr (if a = ''0x51'' then [7, 12, 15] else [])),
      getCertificateDetails = demo_details,
      tokenURI = (\<lambda>i. if i = 7 then Inr ''ipfs://QmC7'' else if i = 12 then Inr ''ipfs://QmC12''
                       else if i = 15 then Inr ''ipfs://QmC15''
                       else Inl (Rejected ''call revert exception'')),
      pinata = demo_pinata,
      ipfs_io = demo_ipfs_io,
      uploadFile = (\<lambda>f. Inr (Some ''QmDoc'')),
      uploadJSON = (\<lambda>j. Inr (Some ''QmMeta'')),
      exec = (\<lambda>t. Inr ()),
      calls = [],
      uploads = [],
      userData = None,
      loading = False,
      lowerCase = demo_lowerCase\<rparr>"

text \<open>The same session with the first gateway unreachable for every identifier.\<close>

definition demo_pinata_down :: world where
  "demo_pinata_down = demo\<lparr>pinata := (\<lambda>h. Inl (Rejected ''Failed to fetch''))\<rparr>"

text \<open>
  The same session with identifiers outside ASCII: the first gateway serves \<open>o-umlaut 1\<close>
  for the first student and \<open>O-umlaut 1\<close> for the second.
\<close>

definition demo_umlauts_pinata :: "string \<Rightarrow> error + response" where
  "demo_umlauts_pinata h =
     (if h = ''QmS1''
      then Inr (Response True
             (Some (JObject [(''studentId'', JString [CHR 0xC3, CHR 0xB6, CHR ''1''])])))
      else if h = ''QmS2''
      then Inr (Response True
             (Some (JObject [(''studentId'', JString [CHR 0xC3, CHR 0x96, CHR ''1''])])))
      else Inl (Rejected ''Failed to fetch''))"

definition demo_umlauts :: world where
  "demo_umlauts = demo\<lparr>pinata := demo_umlauts_pinata\<rparr>"

text \<open>The same session with the authorization read failing for the provider \<open>0xBB\<close>.\<close>

definition demo_auth_down :: world where
  "demo_auth_down =
     demo\<lparr>authorizedInstitutes :=
            (\<lambda>a. if a = ''0xBB'' then Inl (Rejected ''timeout'') else Inr (a = ''0xAA''))\<rparr>"

text \<open>
  A session for a registration: the account \<open>0xCC\<close> is not registered yet, and the upload
  of a document resolves with an object that has no \<open>cid\<close>.
\<close>

definition demo_doc_without_cid :: world where
  "demo_doc_without_cid = demo\<lparr>account := Some ''0xCC'', uploadFile := (\<lambda>f. Inr None)\<rparr>"

section \<open>Properties\<close>

subsection \<open>Auxiliary facts\<close>

lemma promise_all_map_Inr:
  "(\<And>x. x \<in> set xs \<Longrightarrow> g x = Inr (f x)) \<Longrightarrow> promise_all (map g xs) = Inr (map f xs)"
  by (induction xs) auto

lemma promise_all_Inl: "Inl e \<in> set ps \<Longrightarrow> \<exists>e'. promise_all ps = Inl e'"
  by (induction ps) (auto split: sum.splits)

lemma find_filter: "find P (filter Q xs) = find (\<lambda>x. Q x \<and> P x) xs"
  by (induction xs) auto

text \<open>A checked fetch succeeds exactly when the gateway serves the identifier.\<close>

lemma fetch_checked_served: "fetch_checked fetched msg = Inr j \<longleftrightarrow> served fetched = Some j"
  by (auto simp: fetch_checked_def served_def await_def json_of_def
           split: sum.splits option.splits)

text \<open>
  The nested \<^verbatim>\<open>try\<close>/\<^verbatim>\<open>catch\<close> of \<^verbatim>\<open>fetchStudentMetadata\<close>, \<^verbatim>\<open>fetchProviderMetadata\<close> and
  \<^verbatim>\<open>getCertificatesByAddress\<close> is the resolver of the specification over the two gateways,
  with \<^verbatim>\<open>null\<close> for an exhausted list.
\<close>

lemma two_gateways:
  "try_catch (fetch_checked (pinata w h) m1)
     (\<lambda>err. try_catch (fetch_checked (ipfs_io w h) m2) (\<lambda>fallbackErr. Inr JNull))
   = Inr (case resolver_get w h of Some j \<Rightarrow> j | None \<Rightarrow> JNull)"
proof (cases "served (pinata w h)")
  case None
  then have first: "\<exists>e. fetch_checked (pinata w h) m1 = Inl e"
    using fetch_checked_served [of "pinata w h" m1]
    by (cases "fetch_checked (pinata w h) m1") auto
  show ?thesis
  proof (cases "served (ipfs_io w h)")
    case None
    then have second: "\<exists>e. fetch_checked (ipfs_io w h) m2 = Inl e"
      using fetch_checked_served [of "ipfs_io w h" m2]
      by (cases "fetch_checked (ipfs_io w h) m2") auto
    from first second \<open>served (pinata w h) = None\<close> None show ?thesis
      by (auto simp: try_catch_def resolver_get_def)
  next
    case (Some j)
    then have "fetch_checked (ipfs_io w h) m2 = Inr j"
      by (simp add: fetch_checked_served)
    with first \<open>served (pinata w h) = None\<close> Some show ?thesis
      by (auto simp: try_catch_def resolver_get_def)
  qed
next
  case (Some j)
  then have "fetch_checked (pinata w h) m1 = Inr j"
    by (simp add: fetch_checked_served)
  with Some show ?thesis
    by (simp add: try_catch_def resolver_get_def)
qed

lemma fetchStudentMetadata_resolves: "fetchStudentMetadata w a h = Inr (metadata_or_null w h)"
  by (simp add: fetchStudentMetadata_def metadata_or_null_def two_gateways)

lemma certificate_metadata_resolves:
  "certificate_metadata w uri =
     Inr (case resolver_get w (replace uri ''ipfs://'' []) of Some j \<Rightarrow> j | None \<Rightarrow> JNull)"
  by (simp add: certificate_metadata_def two_gateways)

text \<open>The loop of \<^verbatim>\<open>getStudentByStudentId\<close> stops at the first student that matches.\<close>

lemma students_loop_find:
  "students_loop w sid xs =
     Inr (case find (student_matches w sid) xs of
            None \<Rightarrow> None
          | Some u \<Rightarrow> Some (address u, metadata_or_null w (metadataHash u)))"
proof (induction xs)
  case Nil
  show ?case by simp
next
  case (Cons x xs)
  show ?case
  proof (cases "student_matches w sid x")
    case True
    then show ?thesis
      by (auto simp: student_matches_def fetchStudentMetadata_resolves await_def try_catch_def
            opt_toLowerCase_def split: option.splits json.splits)
  next
    case False
    then show ?thesis
      using Cons.IH
      by (auto simp: student_matches_def fetchStudentMetadata_resolves await_def try_catch_def
            opt_toLowerCase_def split: option.splits json.splits)
  qed
qed

text \<open>The scan of the pending requests, promise by promise.\<close>

lemma request_promise_entry:
  "account w = Some acct \<Longrightarrow> request_promise w i = Inr (pending_entry w acct i)"
  by (simp add: request_promise_def pending_entry_def try_catch_def await_def split: sum.splits)

lemma pending_entry_Some:
  "pending_entry w acct i = Some r \<longleftrightarrow>
     (\<exists>q. certificateRequests w i = Inr q
          \<and> toLowerCase (req_institute q) = toLowerCase acct \<and> \<not> req_approved q
          \<and> r = \<lparr>id' = i, student = req_student q, institute = req_institute q,
                  name = req_name q, message = req_message q,
                  studentMetadataHash = req_studentMetadataHash q,
                  approved = req_approved q\<rparr>)"
  by (cases "certificateRequests w i") (auto simp: pending_entry_def)

lemma pending_entry_id: "pending_entry w acct i = Some r \<Longrightarrow> id' r = i"
  by (auto simp: pending_entry_def split: sum.splits if_splits)

lemma set_map_filter: "y \<in> set (List.map_filter f xs) \<longleftrightarrow> (\<exists>x. x \<in> set xs \<and> f x = Some y)"
  by (induction xs) (auto split: option.splits)

lemma map_filter_map: "List.map_filter (\<lambda>r. r) (map f xs) = List.map_filter f xs"
  by (induction xs) (auto split: option.splits)

lemma scan_result:
  assumes "provider w \<noteq> Null" and "account w = Some acct" and "acct \<noteq> []"
    and "getSigner w = Inr ()" and "requestCounter w = Inr n" and "n \<le> 4294967295"
  shows "fetchProviderCertificateRequests w =
           Inr (List.map_filter (pending_entry w acct) [1..<Suc n])"
proof -
  have "promise_all (map (request_promise w) (map Suc [0..<n]))
          = Inr (map (pending_entry w acct) (map Suc [0..<n]))"
    by (intro promise_all_map_Inr) (simp add: request_promise_entry [OF assms(2)])
  moreover have "List.map_filter (\<lambda>r. r) (map (pending_entry w acct) (map Suc [0..<n]))
          = List.map_filter (pending_entry w acct) [1..<Suc n]"
    by (simp add: map_filter_map map_Suc_upt)
  ultimately show ?thesis
    using assms
    by (simp add: fetchProviderCertificateRequests_def falsy_def try_catch_def await_def)
qed

lemma map_filter_ids:
  assumes "\<And>i r. f i = Some r \<Longrightarrow> id' r = i"
  shows "map id' (List.map_filter f xs) = filter (\<lambda>i. f i \<noteq> None) xs"
  using assms by (induction xs) (auto split: option.splits)

lemma map_filter_drop:
  assumes "\<And>i r. f i = Some r \<Longrightarrow> id' r = i"
  shows "List.map_filter (\<lambda>i. if i = k then None else f i) xs
           = filter (\<lambda>r. id' r \<noteq> k) (List.map_filter f xs)"
  using assms by (induction xs) (auto split: option.splits)

lemma pending_entry_failed:
  "pending_entry (w\<lparr>certificateRequests := (certificateRequests w)(k := Inl e)\<rparr>) acct
     = (\<lambda>i. if i = k then None else pending_entry w acct i)"
  by (auto simp: pending_entry_def fun_eq_iff)

text \<open>The \<^verbatim>\<open>Promise.all\<close> over the authorization reads.\<close>

lemma with_authorization_fails:
  assumes "u \<in> set providers" and "authorizedInstitutes w (address u) = Inl e"
  shows "\<exists>e'. with_authorization w providers = Inl e'"
proof -
  have "Inl e \<in> set (map (\<lambda>provider'.
               await (authorizedInstitutes w (address provider')) (\<lambda>isAuthorized.
                 Inr (provider', isAuthorized))) providers)"
    using assms by (force simp: await_def)
  then show ?thesis
    unfolding with_authorization_def by (rule promise_all_Inl)
qed

lemma with_authorization_succeeds:
  assumes "\<And>u. u \<in> set providers \<Longrightarrow> authorizedInstitutes w (address u) = Inr (auth u)"
  shows "with_authorization w providers = Inr (map (\<lambda>u. (u, auth u)) providers)"
  unfolding with_authorization_def
  by (intro promise_all_map_Inr) (simp add: assms await_def)

text \<open>
  Where \<^verbatim>\<open>registerUser\<close> does stop before the ledger write: a missing payload (nothing is
  uploaded either), a rejected document upload, and a metadata upload that rejects or
  returns no identifier.
\<close>

lemma registerUser_missing_payload:
  assumes "provider w \<noteq> Null" and "account w = Some acct" and "acct \<noteq> []"
    and "userRegistryAddress w \<noteq> []" and "getSigner w = Inr ()"
  shows "registerUser w Student None pd = (Inl (Thrown ''Missing student data''), w)"
    and "registerUser w Provider sd None = (Inl (Thrown ''Missing provider data''), w)"
  using assms by (simp_all add: registerUser_def build_metadata_def falsy_def)


lemma build_metadata_frame:
  "\<exists>ups. snd (build_metadata w r sd pd) = w\<lparr>uploads := ups\<rparr>"
proof (cases r)
  case Student
  then show ?thesis
    by (cases sd) (auto simp: build_metadata_def intro: exI [of _ "uploads w"])
next
  case Provider
  show ?thesis
  proof (cases pd)
    case None
    with Provider show ?thesis
      by (auto simp: build_metadata_def intro: exI [of _ "uploads w"])
  next
    case (Some d)
    with Provider show ?thesis
      by (cases "uploadFile w (pd_document d)")
        (auto simp: build_metadata_def uploadFileToIPFS_def)
  qed
qed

lemma registerUser_document_upload_rejected:
  assumes "provider w \<noteq> Null" and "account w = Some acct" and "acct \<noteq> []"
    and "userRegistryAddress w \<noteq> []" and "getSigner w = Inr ()"
    and "uploadFile w (pd_document d) = Inl e"
  shows "registerUser w Provider sd (Some d) = (Inl e, w\<lparr>uploads := uploads w @ [File (pd_document d)]\<rparr>)"
  using assms
  by (simp add: registerUser_def build_metadata_def falsy_def uploadFileToIPFS_def)

lemma registerUser_metadata_upload_failed:
  assumes "provider w \<noteq> Null" and "account w = Some acct" and "acct \<noteq> []"
    and "userRegistryAddress w \<noteq> []" and "getSigner w = Inr ()"
    and "build_metadata w r sd pd = (Inr j, w1)"
    and "uploadJSON w j = Inl e \<or> uploadJSON w j = Inr None \<or> uploadJSON w j = Inr (Some [])"
  shows "\<exists>e'. fst (registerUser w r sd pd) = Inl e'"
    and "calls (snd (registerUser w r sd pd)) = calls w"
proof -
  from build_metadata_frame [of w r sd pd] assms(6)
  obtain ups where w1: "w1 = w\<lparr>uploads := ups\<rparr>"
    by auto
  from assms(7) show "\<exists>e'. fst (registerUser w r sd pd) = Inl e'"
    using assms(1-6)
    by (auto simp: registerUser_def falsy_def uploadJSONToIPFS_def w1)
  from assms(7) show "calls (snd (registerUser w r sd pd)) = calls w"
    using assms(1-6)
    by (auto simp: registerUser_def falsy_def uploadJSONToIPFS_def w1)
qed


text \<open>Which failures the read operations turn into an empty result, and which they report.\<close>

lemma requests_never_reject: "\<exists>rs. fetchProviderCertificateRequests w = Inr rs"
  by (cases "getSigner w"; cases "requestCounter w")
    (auto simp: fetchProviderCertificateRequests_def try_catch_def await_def split: sum.splits)

lemma requests_swallow:
  "provider w = Null \<or> falsy (account w) \<or> getSigner w = Inl e \<or> requestCounter w = Inl e
     \<Longrightarrow> fetchProviderCertificateRequests w = Inr []"
  by (cases "getSigner w")
    (auto simp: fetchProviderCertificateRequests_def try_catch_def await_def)

lemma search_never_rejects: "\<exists>r. getStudentByStudentId w sid = Inr r"
  by (cases "getAllRegisteredUsers w")
    (auto simp: getStudentByStudentId_def try_catch_def await_def students_loop_find)

lemma search_swallows:
  "provider w = Null \<or> getAllRegisteredUsers w = Inl e \<Longrightarrow> getStudentByStudentId w sid = Inr None"
  by (auto simp: getStudentByStudentId_def try_catch_def await_def)

lemma classification_swallows:
  assumes "provider w = Null \<or> (getAllRegisteredUsers w = Inr us \<and> certificateNFTAddress w = [])"
  shows "fetchPendingProviders w = Inr []" and "fetchAuthorizedProviders w = Inr []"
  using assms
  by (auto simp: fetchPendingProviders_def fetchAuthorizedProviders_def getCertificateContract_def
        await_def)

lemma classification_reports_enumeration:
  assumes "provider w \<noteq> Null" and "getAllRegisteredUsers w = Inl e"
  shows "fetchPendingProviders w = Inl e" and "fetchAuthorizedProviders w = Inl e"
  using assms
  by (auto simp: fetchPendingProviders_def fetchAuthorizedProviders_def await_def)

lemma enumeration_reports:
  "provider w = Null \<Longrightarrow> getAllRegisteredUsers w = Inl (Thrown ''Provider not available'')"
  "provider w \<noteq> Null \<Longrightarrow> userRegistryAddress w = []
     \<Longrightarrow> getAllRegisteredUsers w = Inl (Thrown ''User Registry contract not initialized'')"
  "provider w \<noteq> Null \<Longrightarrow> userRegistryAddress w \<noteq> [] \<Longrightarrow> getAllUsers w = Inl e
     \<Longrightarrow> getAllRegisteredUsers w = Inl e"
  by (auto simp: getAllRegisteredUsers_def getContract_def await_def)

lemma certificates_report:
  "provider w = Null \<Longrightarrow> getCertificatesByAddress w a = Inl (Thrown ''Provider not available'')"
  "provider w \<noteq> Null \<Longrightarrow> certificateNFTAddress w = []
     \<Longrightarrow> getCertificatesByAddress w a = Inl (Thrown ''CertificateNFT contract not initialized'')"
  "provider w \<noteq> Null \<Longrightarrow> certificateNFTAddress w \<noteq> [] \<Longrightarrow> getStudentCertificates w a = Inl e
     \<Longrightarrow> getCertificatesByAddress w a = Inl e"
  by (auto simp: getCertificatesByAddress_def getCertificateContract_def await_def)

text \<open>Facts of the concrete session.\<close>

lemma toString_demo: "toString 7 = ''7''" "toString 12 = ''12''" "toString 15 = ''15''"
  by code_simp+

lemma demo_users:
  "getAllRegisteredUsers demo =
     Inr [\<lparr>address = ''0x51'', role = ''student'', metadataHash = ''QmS1''\<rparr>,
          \<lparr>address = ''0xAA'', role = ''provider'', metadataHash = ''QmAA''\<rparr>,
          \<lparr>address = ''0x52'', role = ''student'', metadataHash = ''QmS2''\<rparr>,
          \<lparr>address = ''0xBB'', role = ''Provider'', metadataHash = ''QmBB''\<rparr>,
          \<lparr>address = ''0x53'', role = ''Student'', metadataHash = ''QmS3''\<rparr>]"
  by (simp add: getAllRegisteredUsers_def getContract_def demo_def demo_getUser_def await_def)

lemma demo_auth_down_users: "getAllRegisteredUsers demo_auth_down = getAllRegisteredUsers demo"
  by (simp add: demo_auth_down_def getAllRegisteredUsers_def getContract_def)

subsection \<open>The owner gate of the authorization writes\<close>

text \<open>
  Claim C1. When \<^verbatim>\<open>authorizeInstitute\<close> or \<^verbatim>\<open>revokeInstitute\<close> is invoked with a connected
  wallet whose active account differs, after lowering the case, from the owner that the
  \<^verbatim>\<open>owner()\<close> read returns, the operation fails with the error ``You are not the contract
  owner'' and the world is left exactly as it was: no contract write is logged, and
  \<^verbatim>\<open>authorizedInstitutes\<close> answers for the target address what it answered before.
\<close>

theorem setAuthorization_owner_gate:
  assumes "provider w \<noteq> Null" and "account w = Some acct" and "acct \<noteq> []"
    and "getSigner w = Inr ()" and "owner w = Inr ow"
    and "toLowerCase ow \<noteq> toLowerCase acct"
  shows "authorizeInstitute w a = (Inl (Thrown ''You are not the contract owner''), w)
       \<and> revokeInstitute w a = (Inl (Thrown ''You are not the contract owner''), w)
       \<and> calls (snd (authorizeInstitute w a)) = calls w
       \<and> calls (snd (revokeInstitute w a)) = calls w
       \<and> authorizedInstitutes (snd (authorizeInstitute w a)) a = authorizedInstitutes w a
       \<and> authorizedInstitutes (snd (revokeInstitute w a)) a = authorizedInstitutes w a"
  using assms
  by (simp add: authorizeInstitute_def revokeInstitute_def setAuthorization_def falsy_def)

text \<open>
  In the concrete session the provider \<open>0xAA\<close> is not the owner: its attempts change
  nothing. The last two conjuncts are the contrast: the same call by the owner (spelled in
  another case) is submitted and does change the authorization.
\<close>

theorem setAuthorization_owner_gate_witness:
  "authorizeInstitute demo ''0xBB'' = (Inl (Thrown ''You are not the contract owner''), demo)
   \<and> revokeInstitute demo ''0xAA'' = (Inl (Thrown ''You are not the contract owner''), demo)
   \<and> authorizedInstitutes (snd (authorizeInstitute demo ''0xBB'')) ''0xBB'' = Inr False
   \<and> authorizedInstitutes (snd (revokeInstitute demo ''0xAA'')) ''0xAA'' = Inr True
   \<and> authorizedInstitutes
        (snd (authorizeInstitute (demo\<lparr>account := Some ''0xOwner''\<rparr>) ''0xBB'')) ''0xBB''
       = Inr True
   \<and> calls (snd (authorizeInstitute (demo\<lparr>account := Some ''0xOwner''\<rparr>) ''0xBB''))
       = [TxAuthorizeInstitute ''0xBB'']"
proof -
  have h: "provider demo \<noteq> Null" "account demo = Some ''0xAA''" "''0xAA'' \<noteq> []"
    "getSigner demo = Inr ()" "owner demo = Inr ''0xOWNER''"
    "toLowerCase ''0xOWNER'' \<noteq> toLowerCase ''0xAA''"
    by (simp_all add: demo_def toLowerCase_def toLowerCase_char_def)
  have own:
    "authorizedInstitutes
       (snd (authorizeInstitute (demo\<lparr>account := Some ''0xOwner''\<rparr>) ''0xBB'')) ''0xBB''
      = Inr True
     \<and> calls (snd (authorizeInstitute (demo\<lparr>account := Some ''0xOwner''\<rparr>) ''0xBB''))
      = [TxAuthorizeInstitute ''0xBB'']"
    by (simp add: demo_def authorizeInstitute_def setAuthorization_def falsy_def send_def
          ledger_effect_def toLowerCase_def toLowerCase_char_def)
  have a: "authorizedInstitutes demo ''0xBB'' = Inr False"
    "authorizedInstitutes demo ''0xAA'' = Inr True"
    by (simp_all add: demo_def)
  show ?thesis
    using setAuthorization_owner_gate [OF h, of "''0xBB''"]
      setAuthorization_owner_gate [OF h, of "''0xAA''"] own a
    by simp
qed

subsection \<open>The ownership test\<close>

text \<open>
  Claim C10. \<^verbatim>\<open>checkIsOwner\<close> never rejects: for every world and address it resolves with a
  boolean. It resolves with \<^verbatim>\<open>false\<close> when no provider is connected, when the address of the
  credential ledger is unset and when the \<^verbatim>\<open>owner()\<close> read fails, which is also its answer
  for an address that is not the owner: the caller cannot tell the cases apart.
\<close>

theorem checkIsOwner_total:
  "(\<exists>b. checkIsOwner w a = Inr b)
   \<and> (provider w = Null \<longrightarrow> checkIsOwner w a = Inr False)
   \<and> (certificateNFTAddress w = [] \<longrightarrow> checkIsOwner w a = Inr False)
   \<and> (\<forall>e. owner w = Inl e \<longrightarrow> checkIsOwner w a = Inr False)
   \<and> (\<forall>ow. owner w = Inr ow \<and> toLowerCase ow \<noteq> toLowerCase a
         \<longrightarrow> checkIsOwner w a = Inr False)"
  by (auto simp: checkIsOwner_def getCertificateContract_def try_catch_def await_def
           split: sum.splits)

theorem checkIsOwner_total_witness:
  "checkIsOwner (demo\<lparr>provider := Null\<rparr>) ''0xOWNER'' = Inr False
   \<and> checkIsOwner (demo\<lparr>certificateNFTAddress := []\<rparr>) ''0xOWNER'' = Inr False
   \<and> checkIsOwner (demo\<lparr>owner := Inl (Rejected ''timeout'')\<rparr>) ''0xOWNER'' = Inr False
   \<and> checkIsOwner demo ''0xAA'' = Inr False
   \<and> checkIsOwner demo ''0xowner'' = Inr True"
  using checkIsOwner_total [of "demo\<lparr>provider := Null\<rparr>" "''0xOWNER''"]
    checkIsOwner_total [of "demo\<lparr>certificateNFTAddress := []\<rparr>" "''0xOWNER''"]
    checkIsOwner_total [of "demo\<lparr>owner := Inl (Rejected ''timeout'')\<rparr>" "''0xOWNER''"]
    checkIsOwner_total [of "demo" "''0xAA''"]
  by (simp add: demo_def checkIsOwner_def getCertificateContract_def try_catch_def await_def
        toLowerCase_def toLowerCase_char_def)

subsection \<open>Gateway fallback\<close>

text \<open>
  Claim C3. A failed fetch against one gateway must be followed by an attempt on the next
  gateway; with the first gateway failing and the second serving valid JSON the caller gets
  the second gateway's payload. \<^verbatim>\<open>fetchStudentMetadata\<close>, \<^verbatim>\<open>fetchProviderMetadata\<close> and
  \<^verbatim>\<open>getCertificatesByAddress\<close> do so (lemma \<open>two_gateways\<close>). Two other copies of the
  resolver do not. With the first gateway unreachable, \<^verbatim>\<open>fetchStudentProfile\<close> resolves with
  \<^verbatim>\<open>null\<close> for the student \<open>0x52\<close>, whose document the second gateway serves and
  \<^verbatim>\<open>fetchStudentMetadata\<close> returns: its first \<^verbatim>\<open>fetch\<close> is outside any inner \<^verbatim>\<open>try\<close>, so a
  transport error skips the fallback. And \<^verbatim>\<open>handleSearch\<close> asks \<^verbatim>\<open>ipfs.io\<close> alone: for the
  certificate document \<open>QmC12\<close>, which only the other gateway serves, it yields \<^verbatim>\<open>null\<close>
  where \<^verbatim>\<open>getCertificatesByAddress\<close> yields the document.
\<close>

theorem resolver_fallback_divergence:
  "pinata demo_pinata_down ''QmS2'' = Inl (Rejected ''Failed to fetch'')
   \<and> ipfs_io demo_pinata_down ''QmS2''
       = Inr (Response True
                (Some (JObject [(''name'', JString ''Bob''), (''studentId'', JString ''S100'')])))
   \<and> fetchStudentMetadata demo_pinata_down ''0x52'' ''QmS2''
       = Inr (JObject [(''name'', JString ''Bob''), (''studentId'', JString ''S100'')])
   \<and> fetchStudentProfile demo_pinata_down ''0x52'' = Inr JNull
   \<and> ipfs_io demo ''QmC12'' = Inr (Response False None)
   \<and> pinata demo ''QmC12''
       = Inr (Response True (Some (JObject [(''image'', JString ''ipfs://Qm12'')])))
   \<and> certificate_metadata demo ''ipfs://QmC12''
       = Inr (JObject [(''image'', JString ''ipfs://Qm12'')])
   \<and> handleSearch_metadata demo ''ipfs://QmC12'' = Inr JNull"
  by (simp add: demo_pinata_down_def demo_def demo_pinata_def demo_ipfs_io_def demo_getUser_def
        fetchStudentMetadata_def fetchStudentProfile_def certificate_metadata_def
        handleSearch_metadata_def fetch_checked_def json_of_def try_catch_def await_def
        getContract_def)

subsection \<open>Search by external student identifier\<close>

text \<open>
  Claim C8. With a provider connected and the enumeration of the registry succeeding,
  \<^verbatim>\<open>getStudentByStudentId\<close> returns the first user, in enumeration order, whose role is
  \<open>student\<close> (up to case) and whose metadata, resolved through the gateways, carries a
  string \<open>studentId\<close> that \<^verbatim>\<open>toLowerCase\<close> maps to the same string as the identifier, as the
  pair of that user's address and metadata; it returns \<^verbatim>\<open>null\<close> when no such user exists.
  Users of another role are never returned. The statement holds for every identifier and
  for whatever the runtime's lowering does: \<open>student_matches\<close> compares through the
  \<open>lowerCase\<close> of the world.
\<close>

theorem getStudentByStudentId_first_match:
  assumes "provider w \<noteq> Null" and "getAllRegisteredUsers w = Inr users"
  shows "getStudentByStudentId w sid =
     Inr (case find (\<lambda>u. toLowerCase (role u) = ''student'' \<and> student_matches w sid u) users of
            None \<Rightarrow> None
          | Some u \<Rightarrow> Some (address u, metadata_or_null w (metadataHash u)))"
  using assms
  by (simp add: getStudentByStudentId_def await_def try_catch_def students_loop_find find_filter)

text \<open>
  Of the three students of the session only the second has the identifier \<open>S100\<close> (the
  third has the number 100, which is not a string and matches nothing). In the session
  with the identifiers \<open>o-umlaut 1\<close> and \<open>O-umlaut 1\<close>, the query \<open>O-umlaut 1\<close> finds the
  first student, whose identifier lowers to the same string.
\<close>

theorem getStudentByStudentId_first_match_witness:
  "getStudentByStudentId demo ''s100''
     = Inr (Some (''0x52'', JObject [(''name'', JString ''Bob''), (''studentId'', JString ''S100'')]))
   \<and> getStudentByStudentId demo ''100'' = Inr None
   \<and> getStudentByStudentId demo_umlauts [CHR 0xC3, CHR 0x96, CHR ''1'']
     = Inr (Some (''0x51'', JObject [(''studentId'', JString [CHR 0xC3, CHR 0xB6, CHR ''1''])]))"
proof -
  have p: "provider demo \<noteq> Null" "provider demo_umlauts \<noteq> Null"
    by (simp_all add: demo_umlauts_def demo_def)
  have g: "pinata demo = demo_pinata" "ipfs_io demo = demo_ipfs_io"
    "ipfs_io demo_umlauts = demo_ipfs_io" "lowerCase demo = demo_lowerCase"
    "lowerCase demo_umlauts = demo_lowerCase" "pinata demo_umlauts = demo_umlauts_pinata"
    by (simp_all add: demo_umlauts_def demo_def)
  have u: "getAllRegisteredUsers demo_umlauts = getAllRegisteredUsers demo"
    by (simp add: demo_umlauts_def getAllRegisteredUsers_def getContract_def)
  have ascii: "getStudentByStudentId demo ''s100''
     = Inr (Some (''0x52'', JObject [(''name'', JString ''Bob''), (''studentId'', JString ''S100'')]))
   \<and> getStudentByStudentId demo ''100'' = Inr None"
    using getStudentByStudentId_first_match [OF p(1) demo_users, of "''s100''"]
      getStudentByStudentId_first_match [OF p(1) demo_users, of "''100''"]
    by (simp add: student_matches_def metadata_or_null_def resolver_get_def served_def g
          demo_pinata_def demo_ipfs_io_def studentId_of_def demo_lowerCase_def
          toLowerCase_def toLowerCase_char_def)
  have umlaut: "getStudentByStudentId demo_umlauts [CHR 0xC3, CHR 0x96, CHR ''1'']
     = Inr (Some (''0x51'', JObject [(''studentId'', JString [CHR 0xC3, CHR 0xB6, CHR ''1''])]))"
    using getStudentByStudentId_first_match
        [OF p(2) demo_users [folded u], of "[CHR 0xC3, CHR 0x96, CHR ''1'']"]
    by (simp add: student_matches_def metadata_or_null_def resolver_get_def served_def g
          demo_umlauts_pinata_def demo_ipfs_io_def studentId_of_def demo_lowerCase_def
          toLowerCase_def toLowerCase_char_def)
  from ascii umlaut show ?thesis
    by simp
qed

subsection \<open>Certificates of an address\<close>

text \<open>
  Claim C9. When the ledger reads succeed, \<^verbatim>\<open>getCertificatesByAddress\<close> returns one entry
  for each token id that \<^verbatim>\<open>getStudentCertificates\<close> reports, in that order, with the core
  fields and the token URI as the ledger gives them. The metadata of an entry is the
  document the gateways resolve, and \<^verbatim>\<open>null\<close> when both fail. Nothing is assumed of the
  gateways: whatever they do, the list has the same length and the same ledger fields.
\<close>

theorem getCertificatesByAddress_entries:
  assumes "provider w \<noteq> Null" and "certificateNFTAddress w \<noteq> []"
    and "getStudentCertificates w a = Inr ids"
    and "\<forall>i \<in> set ids. getCertificateDetails w i = Inr (d i) \<and> tokenURI w i = Inr (u i)"
  shows "getCertificatesByAddress w a =
     Inr (map (\<lambda>i. \<lparr>cert_id = toString i,
                     cert_name = det_name (d i),
                     cert_institute = det_institute (d i),
                     cert_issueDate = det_issueDate (d i),
                     cert_certificateType = det_certificateType (d i),
                     cert_student = det_student (d i),
                     cert_tokenURI = u i,
                     cert_metadata =
                       (case resolver_get w (replace (u i) ''ipfs://'' []) of
                          Some j \<Rightarrow> j
                        | None \<Rightarrow> JNull)\<rparr>) ids)"
proof -
  have "promise_all (map (certificate_of w) ids) =
     Inr (map (\<lambda>i. \<lparr>cert_id = toString i,
                     cert_name = det_name (d i),
                     cert_institute = det_institute (d i),
                     cert_issueDate = det_issueDate (d i),
                     cert_certificateType = det_certificateType (d i),
                     cert_student = det_student (d i),
                     cert_tokenURI = u i,
                     cert_metadata =
                       (case resolver_get w (replace (u i) ''ipfs://'' []) of
                          Some j \<Rightarrow> j
                        | None \<Rightarrow> JNull)\<rparr>) ids)"
    using assms(4)
    by (intro promise_all_map_Inr)
      (simp add: certificate_of_def await_def certificate_metadata_resolves)
  with assms(1-3) show ?thesis
    by (simp add: getCertificatesByAddress_def getCertificateContract_def await_def)
qed

text \<open>
  The three certificates of \<open>0x51\<close>: the first document comes from the second gateway, the
  second from the first, the third from neither.
\<close>

theorem getCertificatesByAddress_entries_witness:
  "getCertificatesByAddress demo ''0x51'' =
     Inr [\<lparr>cert_id = ''7'', cert_name = ''BSc'', cert_institute = ''Uni A'',
           cert_issueDate = 1700000000, cert_certificateType = ''Diploma'',
           cert_student = ''0x51'', cert_tokenURI = ''ipfs://QmC7'',
           cert_metadata = JObject [(''image'', JString ''ipfs://Qm7'')]\<rparr>,
          \<lparr>cert_id = ''12'', cert_name = ''MSc'', cert_institute = ''Uni A'',
           cert_issueDate = 1800000000, cert_certificateType = ''Degree'',
           cert_student = ''0x51'', cert_tokenURI = ''ipfs://QmC12'',
           cert_metadata = JObject [(''image'', JString ''ipfs://Qm12'')]\<rparr>,
          \<lparr>cert_id = ''15'', cert_name = ''PhD'', cert_institute = ''Uni B'',
           cert_issueDate = 1900000000, cert_certificateType = ''Degree'',
           cert_student = ''0x51'', cert_tokenURI = ''ipfs://QmC15'',
           cert_metadata = JNull\<rparr>]"
proof -
  have p: "provider demo \<noteq> Null" "certificateNFTAddress demo \<noteq> []"
    "getStudentCertificates demo ''0x51'' = Inr [7, 12, 15]"
    by (simp_all add: demo_def)
  have r: "\<forall>i \<in> set [7, 12, 15]. getCertificateDetails demo i = Inr (projr (demo_details i))
             \<and> tokenURI demo i = Inr (projr (tokenURI demo i))"
    by (simp add: demo_def demo_details_def)
  have g: "pinata demo = demo_pinata" "ipfs_io demo = demo_ipfs_io"
    "tokenURI demo 7 = Inr ''ipfs://QmC7''" "tokenURI demo 12 = Inr ''ipfs://QmC12''"
    "tokenURI demo 15 = Inr ''ipfs://QmC15''"
    by (simp_all add: demo_def)
  show ?thesis
    using getCertificatesByAddress_entries [OF p r]
    by (simp add: g toString_demo demo_details_def resolver_get_def served_def
          demo_pinata_def demo_ipfs_io_def)
qed

subsection \<open>Pending requests of an institute\<close>

text \<open>
  Claim C2. With a connected wallet and a successful read of the request counter \<open>n\<close>
  (below \<open>2^32\<close>, the largest array length), \<^verbatim>\<open>fetchProviderCertificateRequests\<close> returns
  exactly the requests with an id from 1 to \<open>n\<close> whose fetch succeeds, whose institute is the
  active account up to case and which are not approved, each once and in ascending order
  of id. A fetch that fails for one id removes that id only: making the fetch of any id
  \<open>k\<close> fail changes the result to the same list without the entry of \<open>k\<close>.
\<close>

theorem fetchProviderCertificateRequests_pending:
  assumes "provider w \<noteq> Null" and "account w = Some acct" and "acct \<noteq> []"
    and "getSigner w = Inr ()" and "requestCounter w = Inr n" and "n \<le> 4294967295"
  shows "\<exists>rs. fetchProviderCertificateRequests w = Inr rs
     \<and> (\<forall>r. r \<in> set rs \<longleftrightarrow>
           (\<exists>i q. 1 \<le> i \<and> i \<le> n \<and> certificateRequests w i = Inr q
                  \<and> toLowerCase (req_institute q) = toLowerCase acct \<and> \<not> req_approved q
                  \<and> r = \<lparr>id' = i, student = req_student q, institute = req_institute q,
                          name = req_name q, message = req_message q,
                          studentMetadataHash = req_studentMetadataHash q,
                          approved = req_approved q\<rparr>))
     \<and> sorted_wrt (<) (map id' rs)
     \<and> (\<forall>k e. fetchProviderCertificateRequests
                  (w\<lparr>certificateRequests := (certificateRequests w)(k := Inl e)\<rparr>)
                = Inr (filter (\<lambda>r. id' r \<noteq> k) rs))"
proof -
  let ?rs = "List.map_filter (pending_entry w acct) [1..<Suc n]"
  have res: "fetchProviderCertificateRequests w = Inr ?rs"
    by (rule scan_result [OF assms])
  have mem: "r \<in> set ?rs \<longleftrightarrow>
           (\<exists>i q. 1 \<le> i \<and> i \<le> n \<and> certificateRequests w i = Inr q
                  \<and> toLowerCase (req_institute q) = toLowerCase acct \<and> \<not> req_approved q
                  \<and> r = \<lparr>id' = i, student = req_student q, institute = req_institute q,
                          name = req_name q, message = req_message q,
                          studentMetadataHash = req_studentMetadataHash q,
                          approved = req_approved q\<rparr>)" for r
  proof -
    have "r \<in> set ?rs \<longleftrightarrow> (\<exists>i. 1 \<le> i \<and> i \<le> n \<and> pending_entry w acct i = Some r)"
      by (auto simp: set_map_filter)
    then show ?thesis
      unfolding pending_entry_Some by blast
  qed
  have ids: "map id' ?rs = filter (\<lambda>i. pending_entry w acct i \<noteq> None) [1..<Suc n]"
    by (rule map_filter_ids) (rule pending_entry_id)
  have "sorted_wrt (<) (filter (\<lambda>i. pending_entry w acct i \<noteq> None) [1..<Suc n])"
    by (intro sorted_wrt_filter sorted_wrt_upt)
  with ids have srt: "sorted_wrt (<) (map id' ?rs)"
    by (simp only:)
  have iso: "fetchProviderCertificateRequests
                  (w\<lparr>certificateRequests := (certificateRequests w)(k := Inl e)\<rparr>)
                = Inr (filter (\<lambda>r. id' r \<noteq> k) ?rs)" for k e
  proof -
    let ?w = "w\<lparr>certificateRequests := (certificateRequests w)(k := Inl e)\<rparr>"
    have "fetchProviderCertificateRequests ?w
            = Inr (List.map_filter (pending_entry ?w acct) [1..<Suc n])"
      using assms by (intro scan_result) simp_all
    also have "List.map_filter (pending_entry ?w acct) [1..<Suc n]
            = filter (\<lambda>r. id' r \<noteq> k) ?rs"
      unfolding pending_entry_failed by (rule map_filter_drop) (rule pending_entry_id)
    finally show ?thesis .
  qed
  from res mem srt iso show ?thesis by blast
qed


text \<open>
  The session has five requests: the third cannot be fetched, the second names another
  institute, the fourth is approved. Failing the fetch of the fifth as well leaves the
  first.
\<close>

theorem fetchProviderCertificateRequests_pending_witness:
  "fetchProviderCertificateRequests demo =
     Inr [\<lparr>id' = 1, student = ''0x51'', institute = ''0xaa'', name = ''BSc'',
           message = ''please'', studentMetadataHash = ''QmS1'', approved = False\<rparr>,
          \<lparr>id' = 5, student = ''0x53'', institute = ''0xAA'', name = ''BA'',
           message = ''hi'', studentMetadataHash = ''QmS3'', approved = False\<rparr>]
   \<and> certificateRequests demo 3 = Inl (Rejected ''call revert exception'')
   \<and> fetchProviderCertificateRequests
        (demo\<lparr>certificateRequests := (certificateRequests demo)(5 := Inl (Rejected ''timeout''))\<rparr>) =
     Inr [\<lparr>id' = 1, student = ''0x51'', institute = ''0xaa'', name = ''BSc'',
           message = ''please'', studentMetadataHash = ''QmS1'', approved = False\<rparr>]"
proof -
  have h: "provider demo \<noteq> Null" "account demo = Some ''0xAA''" "''0xAA'' \<noteq> []"
    "getSigner demo = Inr ()" "requestCounter demo = Inr 5" "(5::nat) \<le> 4294967295"
    by (simp_all add: demo_def)
  from fetchProviderCertificateRequests_pending [OF h]
  obtain rs where rs: "fetchProviderCertificateRequests demo = Inr rs"
    and iso: "\<And>k e. fetchProviderCertificateRequests
                  (demo\<lparr>certificateRequests := (certificateRequests demo)(k := Inl e)\<rparr>)
                = Inr (filter (\<lambda>r. id' r \<noteq> k) rs)"
    by blast
  have ev: "fetchProviderCertificateRequests demo =
     Inr [\<lparr>id' = 1, student = ''0x51'', institute = ''0xaa'', name = ''BSc'',
           message = ''please'', studentMetadataHash = ''QmS1'', approved = False\<rparr>,
          \<lparr>id' = 5, student = ''0x53'', institute = ''0xAA'', name = ''BA'',
           message = ''hi'', studentMetadataHash = ''QmS3'', approved = False\<rparr>]"
    by (simp add: fetchProviderCertificateRequests_def request_promise_def demo_def
          demo_requests_def falsy_def try_catch_def await_def upt_rec
          toLowerCase_def toLowerCase_char_def)
  have third: "certificateRequests demo 3 = Inl (Rejected ''call revert exception'')"
    by (simp add: demo_def demo_requests_def)
  from rs ev have rsv:
    "rs = [\<lparr>id' = 1, student = ''0x51'', institute = ''0xaa'', name = ''BSc'',
            message = ''please'', studentMetadataHash = ''QmS1'', approved = False\<rparr>,
           \<lparr>id' = 5, student = ''0x53'', institute = ''0xAA'', name = ''BA'',
            message = ''hi'', studentMetadataHash = ''QmS3'', approved = False\<rparr>]"
    by simp
  from ev third iso [of 5 "Rejected ''timeout''"] show ?thesis
    by (simp add: rsv)
qed


subsection \<open>Classification of the providers\<close>

text \<open>
  Counterexample to claim C4 as stated. The claim asks that a failing authorization read
  for one provider exclude that provider only. The code awaits every read inside one
  \<^verbatim>\<open>Promise.all\<close> with no \<^verbatim>\<open>catch\<close>: in the session where the read fails for \<open>0xBB\<close> and
  succeeds for \<open>0xAA\<close>, both \<^verbatim>\<open>fetchAuthorizedProviders\<close> and \<^verbatim>\<open>fetchPendingProviders\<close> reject
  with the read's error, and \<open>0xAA\<close> is not reported either.
\<close>

theorem classification_counterexample:
  "authorizedInstitutes demo_auth_down ''0xBB'' = Inl (Rejected ''timeout'')
   \<and> authorizedInstitutes demo_auth_down ''0xAA'' = Inr True
   \<and> fetchAuthorizedProviders demo_auth_down = Inl (Rejected ''timeout'')
   \<and> fetchPendingProviders demo_auth_down = Inl (Rejected ''timeout'')"
  by (simp add: fetchAuthorizedProviders_def fetchPendingProviders_def demo_auth_down_users
        demo_users with_authorization_def getCertificateContract_def await_def
        toLowerCase_def toLowerCase_char_def)
    (simp add: demo_auth_down_def demo_def)

text \<open>
  Claim C4, amended. With a provider connected, the ledger address set and the
  enumeration succeeding: if the authorization read fails for some registered provider,
  both classifications reject as a whole; if it succeeds for every registered provider,
  \<^verbatim>\<open>fetchAuthorizedProviders\<close> returns exactly the providers whose flag is set and
  \<^verbatim>\<open>fetchPendingProviders\<close> exactly those whose flag is not, in enumeration order, so that
  each provider is in exactly one bucket and no user of another role is in either.
\<close>

theorem classification_all_or_nothing:
  assumes "provider w \<noteq> Null" and "certificateNFTAddress w \<noteq> []"
    and "getAllRegisteredUsers w = Inr users"
  shows "(u \<in> set users \<and> toLowerCase (role u) = ''provider''
            \<and> authorizedInstitutes w (address u) = Inl e
          \<longrightarrow> (\<exists>e'. fetchAuthorizedProviders w = Inl e')
              \<and> (\<exists>e'. fetchPendingProviders w = Inl e'))
       \<and> ((\<forall>v. v \<in> set users \<and> toLowerCase (role v) = ''provider''
                 \<longrightarrow> authorizedInstitutes w (address v) = Inr (auth v))
          \<longrightarrow> fetchAuthorizedProviders w =
                Inr (map (\<lambda>v. (v, True))
                       (filter (\<lambda>v. toLowerCase (role v) = ''provider'' \<and> auth v) users))
              \<and> fetchPendingProviders w =
                Inr (map (\<lambda>v. (v, False))
                       (filter (\<lambda>v. toLowerCase (role v) = ''provider'' \<and> \<not> auth v) users)))"
proof (intro conjI impI)
  let ?providers = "filter (\<lambda>user. toLowerCase (role user) = ''provider'') users"
  assume a: "u \<in> set users \<and> toLowerCase (role u) = ''provider''
               \<and> authorizedInstitutes w (address u) = Inl e"
  then have "u \<in> set ?providers"
    by simp
  from with_authorization_fails [OF this] a
  obtain e' where e': "with_authorization w ?providers = Inl e'"
    by blast
  show "\<exists>e'. fetchAuthorizedProviders w = Inl e'"
    using assms e' by (simp add: fetchAuthorizedProviders_def getCertificateContract_def await_def)
  show "\<exists>e'. fetchPendingProviders w = Inl e'"
    using assms e' by (simp add: fetchPendingProviders_def getCertificateContract_def await_def)
next
  let ?providers = "filter (\<lambda>user. toLowerCase (role user) = ''provider'') users"
  assume a: "\<forall>v. v \<in> set users \<and> toLowerCase (role v) = ''provider''
                       \<longrightarrow> authorizedInstitutes w (address v) = Inr (auth v)"
  have wa: "with_authorization w ?providers = Inr (map (\<lambda>v. (v, auth v)) ?providers)"
    by (rule with_authorization_succeeds) (simp add: a)
  have f1: "filter (\<lambda>p. snd p) (map (\<lambda>v. (v, auth v)) xs) = map (\<lambda>v. (v, True)) (filter auth xs)"
    for xs :: "RegisteredUser list"
    by (induction xs) auto
  have f2: "filter (\<lambda>p. \<not> snd p) (map (\<lambda>v. (v, auth v)) xs)
        = map (\<lambda>v. (v, False)) (filter (\<lambda>v. \<not> auth v) xs)"
    for xs :: "RegisteredUser list"
    by (induction xs) auto
  have c: "filter (\<lambda>v. toLowerCase (role v) = ''provider'' \<and> P v) users = filter P ?providers"
    for P
    by (simp add: conj_commute)
  show "fetchAuthorizedProviders w =
                Inr (map (\<lambda>v. (v, True))
                       (filter (\<lambda>v. toLowerCase (role v) = ''provider'' \<and> auth v) users))"
    unfolding c using assms wa
    by (simp add: fetchAuthorizedProviders_def getCertificateContract_def await_def f1)
  show "fetchPendingProviders w =
                Inr (map (\<lambda>v. (v, False))
                       (filter (\<lambda>v. toLowerCase (role v) = ''provider'' \<and> \<not> auth v) users))"
    unfolding c using assms wa
    by (simp add: fetchPendingProviders_def getCertificateContract_def await_def f2)
qed

theorem classification_all_or_nothing_witness:
  "(\<exists>e'. fetchAuthorizedProviders demo_auth_down = Inl e')
   \<and> (\<exists>e'. fetchPendingProviders demo_auth_down = Inl e')
   \<and> fetchAuthorizedProviders demo
       = Inr [(\<lparr>address = ''0xAA'', role = ''provider'', metadataHash = ''QmAA''\<rparr>, True)]
   \<and> fetchPendingProviders demo
       = Inr [(\<lparr>address = ''0xBB'', role = ''Provider'', metadataHash = ''QmBB''\<rparr>, False)]"
proof -
  have d: "provider demo_auth_down \<noteq> Null" "certificateNFTAddress demo_auth_down \<noteq> []"
    "getAllRegisteredUsers demo_auth_down =
       Inr [\<lparr>address = ''0x51'', role = ''student'', metadataHash = ''QmS1''\<rparr>,
          \<lparr>address = ''0xAA'', role = ''provider'', metadataHash = ''QmAA''\<rparr>,
          \<lparr>address = ''0x52'', role = ''student'', metadataHash = ''QmS2''\<rparr>,
          \<lparr>address = ''0xBB'', role = ''Provider'', metadataHash = ''QmBB''\<rparr>,
          \<lparr>address = ''0x53'', role = ''Student'', metadataHash = ''QmS3''\<rparr>]"
    by (simp_all add: demo_auth_down_users demo_users) (simp_all add: demo_auth_down_def demo_def)
  have p: "provider demo \<noteq> Null" "certificateNFTAddress demo \<noteq> []"
    by (simp_all add: demo_def)
  have bb: "authorizedInstitutes demo_auth_down ''0xBB'' = Inl (Rejected ''timeout'')"
    by (simp add: demo_auth_down_def)
  have low: "toLowerCase ''Provider'' = ''provider''" "toLowerCase ''provider'' = ''provider''"
    "toLowerCase ''student'' \<noteq> ''provider''" "toLowerCase ''Student'' \<noteq> ''provider''"
    by (simp_all add: toLowerCase_def toLowerCase_char_def)
  have ok: "\<forall>v. v \<in> set [\<lparr>address = ''0x51'', role = ''student'', metadataHash = ''QmS1''\<rparr>,
          \<lparr>address = ''0xAA'', role = ''provider'', metadataHash = ''QmAA''\<rparr>,
          \<lparr>address = ''0x52'', role = ''student'', metadataHash = ''QmS2''\<rparr>,
          \<lparr>address = ''0xBB'', role = ''Provider'', metadataHash = ''QmBB''\<rparr>,
          \<lparr>address = ''0x53'', role = ''Student'', metadataHash = ''QmS3''\<rparr>]
        \<and> toLowerCase (role v) = ''provider''
        \<longrightarrow> authorizedInstitutes demo (address v) = Inr (address v = ''0xAA'')"
    by (simp add: demo_def)
  have fail: "(\<exists>e'. fetchAuthorizedProviders demo_auth_down = Inl e')
   \<and> (\<exists>e'. fetchPendingProviders demo_auth_down = Inl e')"
    using classification_all_or_nothing [OF d,
        of "\<lparr>address = ''0xBB'', role = ''Provider'', metadataHash = ''QmBB''\<rparr>"
           "Rejected ''timeout''" "\<lambda>v. False", THEN conjunct1] bb low
    by simp
  have good: "fetchAuthorizedProviders demo
       = Inr [(\<lparr>address = ''0xAA'', role = ''provider'', metadataHash = ''QmAA''\<rparr>, True)]
   \<and> fetchPendingProviders demo
       = Inr [(\<lparr>address = ''0xBB'', role = ''Provider'', metadataHash = ''QmBB''\<rparr>, False)]"
    using classification_all_or_nothing [OF p demo_users,
        of "\<lparr>address = ''0xBB'', role = ''Provider'', metadataHash = ''QmBB''\<rparr>"
           "Rejected ''timeout''" "\<lambda>v. address v = ''0xAA''", THEN conjunct2, THEN mp, OF ok] low
    by simp
  from fail good show ?thesis by simp
qed


subsection \<open>Requesting a certificate\<close>




subsection \<open>Registration\<close>

text \<open>
  Claim C6. A failed upload must stop \<^verbatim>\<open>registerUser\<close> before the ledger write, an upload
  that returns no content identifier included. The code tests the identifier of the
  metadata upload (\<^verbatim>\<open>if (!cid) throw\<close>) but not that of the document upload: when the
  document upload resolves without a \<open>cid\<close>, the metadata is uploaded without its
  \<open>documentCid\<close> and the registration is written to the ledger. The other cases of the
  claim hold (lemmas \<open>registerUser_missing_payload\<close>,
  \<open>registerUser_document_upload_rejected\<close>, \<open>registerUser_metadata_upload_failed\<close>).
\<close>

theorem registerUser_document_without_cid:
  "uploadFile demo_doc_without_cid ''licence.pdf'' = Inr None
   \<and> fst (registerUser demo_doc_without_cid Provider None
            (Some \<lparr>pd_institutionName = ''Uni C'', pd_accreditationNumber = ''ACC-1'',
                   pd_document = ''licence.pdf''\<rparr>)) = Inr ()
   \<and> calls (snd (registerUser demo_doc_without_cid Provider None
            (Some \<lparr>pd_institutionName = ''Uni C'', pd_accreditationNumber = ''ACC-1'',
                   pd_document = ''licence.pdf''\<rparr>)))
       = [TxRegisterUser ''provider'' ''QmMeta'']
   \<and> uploads (snd (registerUser demo_doc_without_cid Provider None
            (Some \<lparr>pd_institutionName = ''Uni C'', pd_accreditationNumber = ''ACC-1'',
                   pd_document = ''licence.pdf''\<rparr>)))
       = [File ''licence.pdf'',
          Json (JObject [(''institutionName'', JString ''Uni C''),
                         (''accreditationNumber'', JString ''ACC-1'')])]"
  by (simp add: demo_doc_without_cid_def demo_def registerUser_def build_metadata_def
        uploadFileToIPFS_def uploadJSONToIPFS_def js_prop_def falsy_def send_def
        ledger_effect_def role_string_def fetchUserData_def getContract_def try_catch_def
        await_def demo_getUser_def)

subsection \<open>Failures and empty results\<close>

text \<open>
  Counterexample to claim C7 as stated. A failed read of the request counter gives the
  provider dashboard the empty list, a failed enumeration of the registry (which
  \<^verbatim>\<open>getAllRegisteredUsers\<close> itself reports as an error) gives the search \<^verbatim>\<open>null\<close>, and a
  missing provider gives the owner dashboard the empty list of pending providers.
\<close>

theorem failures_counterexample:
  "requestCounter (demo\<lparr>requestCounter := Inl (Rejected ''timeout'')\<rparr>) = Inl (Rejected ''timeout'')
   \<and> fetchProviderCertificateRequests (demo\<lparr>requestCounter := Inl (Rejected ''timeout'')\<rparr>) = Inr []
   \<and> getAllRegisteredUsers (demo\<lparr>getAllUsers := Inl (Rejected ''timeout'')\<rparr>)
       = Inl (Rejected ''timeout'')
   \<and> getStudentByStudentId (demo\<lparr>getAllUsers := Inl (Rejected ''timeout'')\<rparr>) ''S100'' = Inr None
   \<and> fetchPendingProviders (demo\<lparr>provider := Null\<rparr>) = Inr []"
  by (simp add: demo_def fetchProviderCertificateRequests_def getStudentByStudentId_def
        fetchPendingProviders_def getAllRegisteredUsers_def getContract_def falsy_def
        try_catch_def await_def)

text \<open>
  Claim C7, amended. \<^verbatim>\<open>fetchProviderCertificateRequests\<close> and \<^verbatim>\<open>getStudentByStudentId\<close> never
  reject: the first returns \<^verbatim>\<open>[]\<close> without a provider or an account and when the signer or
  the request counter cannot be read, the second returns \<^verbatim>\<open>null\<close> without a provider and
  when the enumeration fails. \<^verbatim>\<open>fetchPendingProviders\<close> and \<^verbatim>\<open>fetchAuthorizedProviders\<close> return
  \<^verbatim>\<open>[]\<close> without a provider and when the ledger address is unset, and report a failed
  enumeration as that error. \<^verbatim>\<open>getAllRegisteredUsers\<close> and \<^verbatim>\<open>getCertificatesByAddress\<close> report
  a missing provider and a failed enumeration read as errors.
\<close>

theorem failures_and_empty_results:
  "(provider w = Null \<or> falsy (account w) \<or> getSigner w = Inl e \<or> requestCounter w = Inl e
      \<longrightarrow> fetchProviderCertificateRequests w = Inr [])
   \<and> (\<exists>rs. fetchProviderCertificateRequests w = Inr rs)
   \<and> (provider w = Null \<or> getAllRegisteredUsers w = Inl e
      \<longrightarrow> getStudentByStudentId w sid = Inr None)
   \<and> (\<exists>r. getStudentByStudentId w sid = Inr r)
   \<and> (provider w = Null \<or> (getAllRegisteredUsers w = Inr us \<and> certificateNFTAddress w = [])
      \<longrightarrow> fetchPendingProviders w = Inr [] \<and> fetchAuthorizedProviders w = Inr [])
   \<and> (provider w \<noteq> Null \<and> getAllRegisteredUsers w = Inl e
      \<longrightarrow> fetchPendingProviders w = Inl e \<and> fetchAuthorizedProviders w = Inl e)
   \<and> (provider w = Null
      \<longrightarrow> getAllRegisteredUsers w = Inl (Thrown ''Provider not available'')
          \<and> getCertificatesByAddress w a = Inl (Thrown ''Provider not available''))
   \<and> (provider w \<noteq> Null \<and> userRegistryAddress w \<noteq> [] \<and> getAllUsers w = Inl e
      \<longrightarrow> getAllRegisteredUsers w = Inl e)
   \<and> (provider w \<noteq> Null \<and> certificateNFTAddress w \<noteq> [] \<and> getStudentCertificates w a = Inl e
      \<longrightarrow> getCertificatesByAddress w a = Inl e)"
proof (intro conjI impI)
  show "\<exists>rs. fetchProviderCertificateRequests w = Inr rs"
    by (rule requests_never_reject)
  show "\<exists>r. getStudentByStudentId w sid = Inr r"
    by (rule search_never_rejects)
qed (simp_all add: requests_swallow search_swallows classification_swallows
       classification_reports_enumeration enumeration_reports certificates_report)

theorem failures_and_empty_results_witness:
  "fetchProviderCertificateRequests (demo\<lparr>getSigner := Inl (Rejected ''user rejected'')\<rparr>) = Inr []
   \<and> getStudentByStudentId (demo\<lparr>provider := Null\<rparr>) ''S100'' = Inr None
   \<and> fetchPendingProviders (demo\<lparr>certificateNFTAddress := []\<rparr>) = Inr []
   \<and> fetchAuthorizedProviders (demo\<lparr>certificateNFTAddress := []\<rparr>) = Inr []
   \<and> fetchPendingProviders (demo\<lparr>getAllUsers := Inl (Rejected ''timeout'')\<rparr>)
       = Inl (Rejected ''timeout'')
   \<and> getAllRegisteredUsers (demo\<lparr>provider := Null\<rparr>) = Inl (Thrown ''Provider not available'')
   \<and> getCertificatesByAddress (demo\<lparr>getStudentCertificates := (\<lambda>a. Inl (Rejected ''timeout''))\<rparr>)
        ''0x51'' = Inl (Rejected ''timeout'')"
proof -
  have u: "getAllRegisteredUsers (demo\<lparr>certificateNFTAddress := []\<rparr>) = getAllRegisteredUsers demo"
    by (simp add: getAllRegisteredUsers_def getContract_def)
  have e: "getAllRegisteredUsers (demo\<lparr>getAllUsers := Inl (Rejected ''timeout'')\<rparr>)
       = Inl (Rejected ''timeout'')"
    by (simp add: getAllRegisteredUsers_def getContract_def await_def demo_def)
  have p: "provider demo \<noteq> Null" "certificateNFTAddress demo \<noteq> []"
    by (simp_all add: demo_def)
  show ?thesis
    using failures_and_empty_results
        [of "demo\<lparr>getSigner := Inl (Rejected ''user rejected'')\<rparr>" "Rejected ''user rejected''"]
      failures_and_empty_results [of "demo\<lparr>provider := Null\<rparr>" _ "''S100''"]
      failures_and_empty_results [of "demo\<lparr>certificateNFTAddress := []\<rparr>" _ _ _]
      failures_and_empty_results
        [of "demo\<lparr>getAllUsers := Inl (Rejected ''timeout'')\<rparr>" "Rejected ''timeout''"]
      failures_and_empty_results
        [of "demo\<lparr>getStudentCertificates := (\<lambda>a. Inl (Rejected ''timeout''))\<rparr>"
            "Rejected ''timeout''" _ _ "''0x51''"]
      u e p demo_users
    by simp
qed


end
